theory Spec2Isabelle
  imports Main "HOL-Library.AList"
begin

section \<open>The SpatialData container of \<^verbatim>\<open>spatialdata/_core/_spatialdata.py\<close>\<close>

text \<open>
  The container holds five insertion-ordered dictionaries from names to spatial elements,
  an optional table and an optional path to the Zarr store that backs it. Elements are
  Python objects: the model keeps them in a heap and the dictionaries hold references,
  so that \<^verbatim>\<open>id(a) == id(b)\<close> is equality of references. Every method is a function
  from the state before the call to an optional exception and the state after it: a
  Python exception leaves behind whatever had been mutated before it was raised.
\<close>

subsection \<open>Exceptions\<close>

datatype error =
    DuplicateName          \<comment> \<open>ValueError: "... already exists in the dataset."\<close>
  | UnsupportedShape       \<comment> \<open>ValueError: "Only czyx and cyx images supported" / "Only yx and zyx labels supported"\<close>
  | SchemaViolation        \<comment> \<open>raised by a schema's \<^verbatim>\<open>validate\<close>\<close>
  | NotBacked              \<comment> \<open>RuntimeError: "The data is not backed by a Zarr storage. ..."\<close>
  | ElementExists          \<comment> \<open>ValueError: "Element ... already exists, use overwrite=True to overwrite it"\<close>
  | NotFound               \<comment> \<open>ValueError: "Element not found in the SpatialData object"\<close>
  | AmbiguousElement       \<comment> \<open>ValueError: "Element found multiple times in the SpatialData object"\<close>
  | NotImplementedError    \<comment> \<open>NotImplementedError("TODO")\<close>
  | SelfOverwrite          \<comment> \<open>ValueError: "Can't overwrite the original file"\<close>
  | AlreadyExists          \<comment> \<open>ValueError: "The Zarr store already exists. Use overwrite=True ..."\<close>
  | AttributeError         \<comment> \<open>\<^verbatim>\<open>parse_url(...)\<close> returned None and \<^verbatim>\<open>.store\<close> was read\<close>
  | UnboundLocalError      \<comment> \<open>\<^verbatim>\<open>elem_group\<close> read before assignment\<close>
  | AssertionError
  | KeyError
  | ContainsGroupError     \<comment> \<open>zarr: \<^verbatim>\<open>create_group\<close> on a group that exists\<close>
  | IOError string         \<comment> \<open>raised inside a reader or writer of \<^verbatim>\<open>spatialdata._io\<close>\<close>

subsection \<open>Elements and the heap\<close>

text \<open>
  Modelled from the spec: the transformation classes of \<^verbatim>\<open>spatialdata._core.transformations\<close>
  are not part of the sources at hand; the spec describes a transformation as an opaque
  value with equality (identity, scale, affine).
\<close>

datatype transformation = Identity | Scale "nat list" | Affine "int list"

datatype pyclass = SpatialImage | MultiscaleSpatialImage | PaTable | GeoDataFrame | AnnData

text \<open>
  Modelled from the spec: \<^verbatim>\<open>get_dims\<close> and \<^verbatim>\<open>_get_transform\<close> of
  \<^verbatim>\<open>spatialdata._core.core_utils\<close> are not part of the sources at hand; the spec says
  both read what the element itself declares (its axes, its transformation metadata).
\<close>

record pyobj =
  cls :: pyclass
  get_dims :: "string list"
  get_transform :: "transformation option"
  payload :: string

type_synonym ref = nat

record heap =
  objs :: "ref \<Rightarrow> pyobj"
  fresh :: ref

definition alloc :: "heap \<Rightarrow> pyobj \<Rightarrow> ref \<times> heap" where
  "alloc h obj = (fresh h, h\<lparr>objs := (objs h)(fresh h := obj), fresh := Suc (fresh h)\<rparr>)"

subsection \<open>Python dictionaries\<close>

text \<open>
  A \<^verbatim>\<open>dict\<close> keeps insertion order: assignment to an existing key keeps its place,
  assignment to a new key appends, \<^verbatim>\<open>del\<close> removes.
\<close>

type_synonym 'v pydict = "(string \<times> 'v) list"

definition py_in :: "string \<Rightarrow> 'v pydict \<Rightarrow> bool" where
  "py_in k d = (k \<in> set (map fst d))"

definition py_del :: "string \<Rightarrow> 'v pydict \<Rightarrow> 'v pydict" where
  "py_del k d = AList.delete k d"

definition py_set :: "string \<Rightarrow> 'v \<Rightarrow> 'v pydict \<Rightarrow> 'v pydict" where
  "py_set k v d = AList.update k v d"

definition py_keys :: "'v pydict \<Rightarrow> string list" where
  "py_keys d = map fst d"

subsection \<open>The Zarr store\<close>

text \<open>
  A store is a root group of named groups (one per element type, and \<^verbatim>\<open>table\<close>), each
  holding named element groups. What an element group holds is written and read only by
  \<^verbatim>\<open>spatialdata._io\<close>; the model keeps the persisted object, or nothing for a group
  that \<^verbatim>\<open>require_group\<close> has only created.
\<close>

type_synonym zelement = "pyobj option"
type_synonym zroot = "string \<rightharpoonup> (string \<rightharpoonup> zelement)"
type_synonym filesystem = "string \<rightharpoonup> zroot"

text \<open>A \<^verbatim>\<open>zarr.Group\<close> handle: \<^verbatim>\<open>group.store.path\<close> and \<^verbatim>\<open>group.path\<close>.\<close>

record zgroup =
  store_path :: string
  group_path :: string

type_synonym storage_options = "string option"

text \<open>\<^verbatim>\<open>os.path.join\<close> (posixpath): an absolute component discards what came before.\<close>

definition join2 :: "string \<Rightarrow> string \<Rightarrow> string" where
  "join2 a b =
     (if b \<noteq> [] \<and> hd b = CHR ''/'' then b
      else if a = [] \<or> last a = CHR ''/'' then a @ b
      else a @ ''/'' @ b)"

definition os_path_join :: "string \<Rightarrow> string list \<Rightarrow> string" where
  "os_path_join a ps = foldl join2 a ps"

subsection \<open>Collaborators outside the sources at hand\<close>

datatype schema =
  Label2D_s | Label3D_s | Image2D_s | Image3D_s | Polygon_s | Point_s | Shape_s | Table_s

text \<open>A bounding box: per axis, its name and its bounds.\<close>

type_synonym BoundingBoxRequest = "(string \<times> int \<times> int) list"

text \<open>
  The schema validators (\<^verbatim>\<open>spatialdata._core.models\<close>), the writers and readers
  (\<^verbatim>\<open>spatialdata._io\<close>) and the point query (\<^verbatim>\<open>spatialdata._core._spatial_query\<close>)
  are called by the container but are not part of the sources at hand. They are
  parameters of the model. \<^verbatim>\<open>validate\<close> is False where the validator raises. A writer
  gets the object, the group handle and the name, and returns its exception, if any,
  and the file system it leaves behind. A reader returns a new object or raises.
  The point query gets the named point objects and returns the named objects of the
  result.
\<close>

record collab =
  validate :: "schema \<Rightarrow> pyobj \<Rightarrow> bool"
  write_image :: "pyobj \<Rightarrow> zgroup \<Rightarrow> string \<Rightarrow> storage_options \<Rightarrow> filesystem \<Rightarrow> error option \<times> filesystem"
  write_labels :: "pyobj \<Rightarrow> zgroup \<Rightarrow> string \<Rightarrow> storage_options \<Rightarrow> filesystem \<Rightarrow> error option \<times> filesystem"
  write_points :: "pyobj \<Rightarrow> zgroup \<Rightarrow> string \<Rightarrow> filesystem \<Rightarrow> error option \<times> filesystem"
  write_polygons :: "pyobj \<Rightarrow> zgroup \<Rightarrow> string \<Rightarrow> filesystem \<Rightarrow> error option \<times> filesystem"
  write_shapes :: "pyobj \<Rightarrow> zgroup \<Rightarrow> string \<Rightarrow> filesystem \<Rightarrow> error option \<times> filesystem"
  write_table :: "pyobj \<Rightarrow> zgroup \<Rightarrow> string \<Rightarrow> filesystem \<Rightarrow> error option \<times> filesystem"
  read_multiscale :: "string \<Rightarrow> string \<Rightarrow> filesystem \<Rightarrow> error + pyobj"
  read_points :: "string \<Rightarrow> filesystem \<Rightarrow> error + pyobj"
  overwrite_coordinate_transformations_raster ::
    "zgroup \<Rightarrow> string list \<Rightarrow> transformation list \<Rightarrow> filesystem \<Rightarrow> error option \<times> filesystem"
  overwrite_coordinate_transformations_non_raster ::
    "zgroup \<Rightarrow> string list \<Rightarrow> transformation \<Rightarrow> filesystem \<Rightarrow> error option \<times> filesystem"
  bounding_box_query_points_dict :: "pyobj pydict \<Rightarrow> BoundingBoxRequest \<Rightarrow> pyobj pydict"

subsection \<open>The container\<close>

record SpatialData =
  images :: "ref pydict"
  labels :: "ref pydict"
  points :: "ref pydict"
  polygons :: "ref pydict"
  shapes :: "ref pydict"
  table :: "ref option"
  path :: "string option"

record state =
  self :: SpatialData
  heap :: heap
  disk :: filesystem

text \<open>Statements in sequence: an exception skips what follows.\<close>

definition and_then ::
  "error option \<times> 's \<Rightarrow> ('s \<Rightarrow> error option \<times> 's) \<Rightarrow> error option \<times> 's" where
  "and_then r f = (case r of (Some e, s) \<Rightarrow> (Some e, s) | (None, s) \<Rightarrow> f s)"

definition add_image_in_memory ::
  "collab \<Rightarrow> heap \<Rightarrow> string \<Rightarrow> ref \<Rightarrow> bool \<Rightarrow> SpatialData \<Rightarrow> error option \<times> SpatialData" where
  "add_image_in_memory C h name img overwrite sd =
     (if py_in name (images sd) \<and> \<not> overwrite then (Some DuplicateName, sd)
      else
        let sd1 = (if py_in name (images sd) then sd\<lparr>images := py_del name (images sd)\<rparr> else sd);
            ndim = length (get_dims (objs h img))
        in if ndim = 3 then
             (if validate C Image2D_s (objs h img)
              then (None, sd1\<lparr>images := py_set name img (images sd1)\<rparr>)
              else (Some SchemaViolation, sd1))
           else if ndim = 4 then
             (if validate C Image3D_s (objs h img)
              then (None, sd1\<lparr>images := py_set name img (images sd1)\<rparr>)
              else (Some SchemaViolation, sd1))
           else (Some UnsupportedShape, sd1))"

definition add_labels_in_memory ::
  "collab \<Rightarrow> heap \<Rightarrow> string \<Rightarrow> ref \<Rightarrow> bool \<Rightarrow> SpatialData \<Rightarrow> error option \<times> SpatialData" where
  "add_labels_in_memory C h name lbls overwrite sd =
     (if py_in name (labels sd) \<and> \<not> overwrite then (Some DuplicateName, sd)
      else
        let sd1 = (if py_in name (labels sd) then sd\<lparr>labels := py_del name (labels sd)\<rparr> else sd);
            ndim = length (get_dims (objs h lbls))
        in if ndim = 2 then
             (if validate C Label2D_s (objs h lbls)
              then (None, sd1\<lparr>labels := py_set name lbls (labels sd1)\<rparr>)
              else (Some SchemaViolation, sd1))
           else if ndim = 3 then
             (if validate C Label3D_s (objs h lbls)
              then (None, sd1\<lparr>labels := py_set name lbls (labels sd1)\<rparr>)
              else (Some SchemaViolation, sd1))
           else (Some UnsupportedShape, sd1))"

definition add_polygons_in_memory ::
  "collab \<Rightarrow> heap \<Rightarrow> string \<Rightarrow> ref \<Rightarrow> bool \<Rightarrow> SpatialData \<Rightarrow> error option \<times> SpatialData" where
  "add_polygons_in_memory C h name polys overwrite sd =
     (if py_in name (polygons sd) \<and> \<not> overwrite then (Some DuplicateName, sd)
      else
        let sd1 = (if py_in name (polygons sd) then sd\<lparr>polygons := py_del name (polygons sd)\<rparr> else sd)
        in if validate C Polygon_s (objs h polys)
           then (None, sd1\<lparr>polygons := py_set name polys (polygons sd1)\<rparr>)
           else (Some SchemaViolation, sd1))"

definition add_shapes_in_memory ::
  "collab \<Rightarrow> heap \<Rightarrow> string \<Rightarrow> ref \<Rightarrow> bool \<Rightarrow> SpatialData \<Rightarrow> error option \<times> SpatialData" where
  "add_shapes_in_memory C h name shps overwrite sd =
     (if py_in name (shapes sd) \<and> \<not> overwrite then (Some DuplicateName, sd)
      else
        let sd1 = (if py_in name (shapes sd) then sd\<lparr>shapes := py_del name (shapes sd)\<rparr> else sd)
        in if validate C Shape_s (objs h shps)
           then (None, sd1\<lparr>shapes := py_set name shps (shapes sd1)\<rparr>)
           else (Some SchemaViolation, sd1))"

definition add_points_in_memory ::
  "collab \<Rightarrow> heap \<Rightarrow> string \<Rightarrow> ref \<Rightarrow> bool \<Rightarrow> SpatialData \<Rightarrow> error option \<times> SpatialData" where
  "add_points_in_memory C h name pts overwrite sd =
     (if py_in name (points sd) \<and> \<not> overwrite then (Some DuplicateName, sd)
      else
        let sd1 = (if py_in name (points sd) then sd\<lparr>points := py_del name (points sd)\<rparr> else sd)
        in if validate C Point_s (objs h pts)
           then (None, sd1\<lparr>points := py_set name pts (points sd1)\<rparr>)
           else (Some SchemaViolation, sd1))"

definition is_backed :: "SpatialData \<Rightarrow> bool" where
  "is_backed sd = (path sd \<noteq> None)"

text \<open>
  The constructor. Its dictionary parameters are declared as \<^verbatim>\<open>dict\<close>, so the tests
  \<^verbatim>\<open>images is not None\<close> hold; only \<^verbatim>\<open>table\<close> is optional. The loops add the
  entries one by one; an exception leaves no object behind.
\<close>

fun add_all ::
  "(string \<Rightarrow> ref \<Rightarrow> SpatialData \<Rightarrow> error option \<times> SpatialData) \<Rightarrow> ref pydict \<Rightarrow> SpatialData
     \<Rightarrow> error option \<times> SpatialData" where
  "add_all add [] sd = (None, sd)"
| "add_all add ((k, v) # kvs) sd = and_then (add k v sd) (add_all add kvs)"

definition SpatialData_init ::
  "collab \<Rightarrow> heap \<Rightarrow> ref pydict \<Rightarrow> ref pydict \<Rightarrow> ref pydict \<Rightarrow> ref pydict \<Rightarrow> ref pydict \<Rightarrow> ref option
     \<Rightarrow> error + SpatialData" where
  "SpatialData_init C h imgs lbls pts polys shps tbl =
     (let sd0 = \<lparr>images = [], labels = [], points = [], polygons = [], shapes = [],
                 table = None, path = None\<rparr>;
          r1 = add_all (\<lambda>k v. add_image_in_memory C h k v False) imgs sd0;
          r2 = and_then r1 (add_all (\<lambda>k v. add_labels_in_memory C h k v False) lbls);
          r3 = and_then r2 (add_all (\<lambda>k v. add_polygons_in_memory C h k v False) polys);
          r4 = and_then r3 (add_all (\<lambda>k v. add_shapes_in_memory C h k v False) shps);
          r5 = and_then r4 (add_all (\<lambda>k v. add_points_in_memory C h k v False) pts);
          r6 = and_then r5 (\<lambda>sd. case tbl of None \<Rightarrow> (None, sd)
                 | Some t \<Rightarrow> if validate C Table_s (objs h t) then (None, sd\<lparr>table := Some t\<rparr>)
                             else (Some SchemaViolation, sd))
      in case r6 of (Some e, _) \<Rightarrow> Inl e | (None, sd) \<Rightarrow> Inr sd)"

subsection \<open>Adding to a backed container\<close>

definition element_types :: "string list" where
  "element_types = [''images'', ''labels'', ''points'', ''polygons'', ''shapes'']"

text \<open>
  \<^verbatim>\<open>_get_group_for_element\<close>: \<^verbatim>\<open>require_group\<close> opens a group and creates it when it
  is not there.
\<close>

definition get_group_for_element ::
  "string \<Rightarrow> string \<Rightarrow> state \<Rightarrow> (error + zgroup) \<times> state" where
  "get_group_for_element name element_type s =
     (case path (self s) of
        None \<Rightarrow> (Inl AttributeError, s)
      | Some p \<Rightarrow>
        (case disk s p of
           None \<Rightarrow> (Inl AttributeError, s)
         | Some root \<Rightarrow>
           if element_type \<notin> set element_types then (Inl AssertionError, s)
           else
             let element_type_group = (case root element_type of None \<Rightarrow> Map.empty | Some g \<Rightarrow> g);
                 element_group = (case element_type_group name of None \<Rightarrow> None | Some z \<Rightarrow> z)
             in (Inr \<lparr>store_path = p, group_path = element_type @ ''/'' @ name\<rparr>,
                 s\<lparr>disk := (disk s)(p \<mapsto> root(element_type \<mapsto> element_type_group(name \<mapsto> element_group)))\<rparr>)))"

text \<open>
  \<^verbatim>\<open>_init_add_element\<close>. The local variable \<^verbatim>\<open>elem_group\<close> is \<open>None\<close> while it is
  unbound, and names the group of the root it is bound to otherwise.
\<close>

definition init_add_element ::
  "string \<Rightarrow> string \<Rightarrow> bool \<Rightarrow> state \<Rightarrow> (error + zgroup) \<times> state" where
  "init_add_element name element_type overwrite s =
     (case path (self s) of
        None \<Rightarrow> (Inl NotBacked, s)
      | Some p \<Rightarrow>
        (case disk s p of
           None \<Rightarrow> (Inl AttributeError, s)
         | Some root0 \<Rightarrow>
           if element_type \<notin> set element_types then (Inl AssertionError, s)
           else
             let created = (element_type \<noteq> ''labels'' \<and> root0 element_type = None);
                 root = (if created then root0(element_type \<mapsto> Map.empty) else root0);
                 s1 = (if created then s\<lparr>disk := (disk s)(p \<mapsto> root)\<rparr> else s);
                 elem_group1 = (if element_type \<noteq> ''labels'' then Some element_type else None);
                 result = (if element_type \<noteq> ''labels''
                           then \<lparr>store_path = p, group_path = element_type\<rparr>
                           else \<lparr>store_path = p, group_path = []\<rparr>)
             in
             if overwrite then
               let elem_group2 = (if element_type = ''labels'' \<and> root element_type \<noteq> None
                                  then Some element_type else elem_group1)
               in (case elem_group2 of
                     None \<Rightarrow> (Inl UnboundLocalError, s1)
                   | Some g \<Rightarrow>
                     (case root g of
                        None \<Rightarrow> (Inl KeyError, s1)
                      | Some grp \<Rightarrow>
                        if grp name \<noteq> None
                        then (Inr result, s1\<lparr>disk := (disk s1)(p \<mapsto> root(g \<mapsto> grp(name := None)))\<rparr>)
                        else (Inr result, s1)))
             else
               let bypass = (element_type = ''labels'' \<and> root element_type = None);
                   elem_group2 = (if element_type = ''labels'' \<and> root element_type \<noteq> None
                                  then Some element_type else elem_group1)
               in if \<not> bypass then
                    (case elem_group2 of
                       None \<Rightarrow> (Inl UnboundLocalError, s1)
                     | Some g \<Rightarrow>
                       (case root g of
                          None \<Rightarrow> (Inl KeyError, s1)
                        | Some grp \<Rightarrow>
                          if grp name \<noteq> None then (Inl ElementExists, s1) else (Inr result, s1)))
                  else (Inr result, s1)))"

text \<open>Lifting an in-memory add and a writer to the whole state.\<close>

definition in_memory ::
  "bool \<Rightarrow> (heap \<Rightarrow> SpatialData \<Rightarrow> error option \<times> SpatialData) \<Rightarrow> state \<Rightarrow> error option \<times> state" where
  "in_memory add_in_memory add s =
     (if add_in_memory then (case add (heap s) (self s) of (e, sd) \<Rightarrow> (e, s\<lparr>self := sd\<rparr>))
      else (None, s))"

definition on_disk ::
  "(filesystem \<Rightarrow> error option \<times> filesystem) \<Rightarrow> state \<Rightarrow> error option \<times> state" where
  "on_disk w s = (case w (disk s) of (e, d) \<Rightarrow> (e, s\<lparr>disk := d\<rparr>))"

text \<open>
  The reload at the end of \<^verbatim>\<open>add_image\<close>, \<^verbatim>\<open>add_labels\<close> and \<^verbatim>\<open>add_points\<close>: the reader
  builds a new object, which replaces the entry (\<^verbatim>\<open>overwrite=True\<close>).
\<close>

definition reload ::
  "error + pyobj \<Rightarrow> (heap \<Rightarrow> ref \<Rightarrow> SpatialData \<Rightarrow> error option \<times> SpatialData) \<Rightarrow> state
     \<Rightarrow> error option \<times> state" where
  "reload r add s =
     (case r of
        Inl e \<Rightarrow> (Some e, s)
      | Inr obj \<Rightarrow>
        (case alloc (heap s) obj of
           (new, h) \<Rightarrow> (case add h new (self s) of (e, sd) \<Rightarrow> (e, s\<lparr>self := sd, heap := h\<rparr>))))"

definition add_image ::
  "collab \<Rightarrow> string \<Rightarrow> ref \<Rightarrow> storage_options \<Rightarrow> bool \<Rightarrow> bool \<Rightarrow> state \<Rightarrow> error option \<times> state" where
  "add_image C name img storage_options overwrite add_in_memory s =
     and_then (in_memory add_in_memory (\<lambda>h. add_image_in_memory C h name img overwrite) s)
       (\<lambda>s1. if is_backed (self s1) then
          (case init_add_element name ''images'' overwrite s1 of
             (Inl e, s2) \<Rightarrow> (Some e, s2)
           | (Inr elem_group, s2) \<Rightarrow>
             (case map_of (images (self s2)) name of
                None \<Rightarrow> (Some KeyError, s2)
              | Some cur \<Rightarrow>
                and_then (on_disk (write_image C (objs (heap s2) cur) elem_group name storage_options) s2)
                  (\<lambda>s3. if group_path elem_group \<noteq> ''images'' then (Some AssertionError, s3)
                     else reload (read_multiscale C (os_path_join (store_path elem_group) [''images'', name])
                                    ''image'' (disk s3))
                            (\<lambda>h new. add_image_in_memory C h name new True) s3)))
        else (None, s1))"

definition add_labels ::
  "collab \<Rightarrow> string \<Rightarrow> ref \<Rightarrow> storage_options \<Rightarrow> bool \<Rightarrow> bool \<Rightarrow> state \<Rightarrow> error option \<times> state" where
  "add_labels C name lbls storage_options overwrite add_in_memory s =
     and_then (in_memory add_in_memory (\<lambda>h. add_labels_in_memory C h name lbls overwrite) s)
       (\<lambda>s1. if is_backed (self s1) then
          (case init_add_element name ''labels'' overwrite s1 of
             (Inl e, s2) \<Rightarrow> (Some e, s2)
           | (Inr elem_group, s2) \<Rightarrow>
             (case map_of (labels (self s2)) name of
                None \<Rightarrow> (Some KeyError, s2)
              | Some cur \<Rightarrow>
                and_then (on_disk (write_labels C (objs (heap s2) cur) elem_group name storage_options) s2)
                  (\<lambda>s3. if group_path elem_group \<noteq> [] then (Some AssertionError, s3)
                     else reload (read_multiscale C (os_path_join (store_path elem_group) [''labels'', name])
                                    ''labels'' (disk s3))
                            (\<lambda>h new. add_labels_in_memory C h name new True) s3)))
        else (None, s1))"

definition add_points ::
  "collab \<Rightarrow> string \<Rightarrow> ref \<Rightarrow> bool \<Rightarrow> bool \<Rightarrow> state \<Rightarrow> error option \<times> state" where
  "add_points C name pts overwrite add_in_memory s =
     and_then (in_memory add_in_memory (\<lambda>h. add_points_in_memory C h name pts overwrite) s)
       (\<lambda>s1. if is_backed (self s1) then
          (case init_add_element name ''points'' overwrite s1 of
             (Inl e, s2) \<Rightarrow> (Some e, s2)
           | (Inr elem_group, s2) \<Rightarrow>
             (case map_of (points (self s2)) name of
                None \<Rightarrow> (Some KeyError, s2)
              | Some cur \<Rightarrow>
                and_then (on_disk (write_points C (objs (heap s2) cur) elem_group name) s2)
                  (\<lambda>s3. reload (read_points C (store_path elem_group) (disk s3))
                            (\<lambda>h new. add_points_in_memory C h name new True) s3)))
        else (None, s1))"

text \<open>Polygons and shapes are written but not reloaded.\<close>

definition add_polygons ::
  "collab \<Rightarrow> string \<Rightarrow> ref \<Rightarrow> bool \<Rightarrow> bool \<Rightarrow> state \<Rightarrow> error option \<times> state" where
  "add_polygons C name polys overwrite add_in_memory s =
     and_then (in_memory add_in_memory (\<lambda>h. add_polygons_in_memory C h name polys overwrite) s)
       (\<lambda>s1. if is_backed (self s1) then
          (case init_add_element name ''polygons'' overwrite s1 of
             (Inl e, s2) \<Rightarrow> (Some e, s2)
           | (Inr elem_group, s2) \<Rightarrow>
             (case map_of (polygons (self s2)) name of
                None \<Rightarrow> (Some KeyError, s2)
              | Some cur \<Rightarrow> on_disk (write_polygons C (objs (heap s2) cur) elem_group name) s2))
        else (None, s1))"

definition add_shapes ::
  "collab \<Rightarrow> string \<Rightarrow> ref \<Rightarrow> bool \<Rightarrow> bool \<Rightarrow> state \<Rightarrow> error option \<times> state" where
  "add_shapes C name shps overwrite add_in_memory s =
     and_then (in_memory add_in_memory (\<lambda>h. add_shapes_in_memory C h name shps overwrite) s)
       (\<lambda>s1. if is_backed (self s1) then
          (case init_add_element name ''shapes'' overwrite s1 of
             (Inl e, s2) \<Rightarrow> (Some e, s2)
           | (Inr elem_group, s2) \<Rightarrow>
             (case map_of (shapes (self s2)) name of
                None \<Rightarrow> (Some KeyError, s2)
              | Some cur \<Rightarrow> on_disk (write_shapes C (objs (heap s2) cur) elem_group name) s2))
        else (None, s1))"

subsection \<open>Writing the container to a store\<close>

text \<open>
  \<^verbatim>\<open>root.create_group(name=...)\<close> on the root group of the store at \<open>p\<close>; zarr
  refuses a group that exists.
\<close>

definition create_group :: "string \<Rightarrow> string \<Rightarrow> state \<Rightarrow> error option \<times> state" where
  "create_group p g s =
     (let root = (case disk s p of None \<Rightarrow> Map.empty | Some r \<Rightarrow> r)
      in if root g \<noteq> None then (Some ContainsGroupError, s)
         else (None, s\<lparr>disk := (disk s)(p \<mapsto> root(g \<mapsto> Map.empty))\<rparr>))"

text \<open>\<^verbatim>\<open>for el in keys: self.add_...(name=el, ...=self....[el], ..., _add_in_memory=False)\<close>\<close>

fun for_each ::
  "(string \<Rightarrow> state \<Rightarrow> error option \<times> state) \<Rightarrow> string list \<Rightarrow> state \<Rightarrow> error option \<times> state" where
  "for_each body [] s = (None, s)"
| "for_each body (el # keys) s = and_then (body el s) (for_each body keys)"

definition with_entry ::
  "(SpatialData \<Rightarrow> ref pydict) \<Rightarrow> (string \<Rightarrow> ref \<Rightarrow> state \<Rightarrow> error option \<times> state) \<Rightarrow> string \<Rightarrow> state
     \<Rightarrow> error option \<times> state" where
  "with_entry coll add el s =
     (case map_of (coll (self s)) el of None \<Rightarrow> (Some KeyError, s) | Some cur \<Rightarrow> add el cur s)"

text \<open>The body of the \<^verbatim>\<open>try\<close> block of \<^verbatim>\<open>write\<close>.\<close>

definition write_elements :: "collab \<Rightarrow> string \<Rightarrow> storage_options \<Rightarrow> state \<Rightarrow> error option \<times> state" where
  "write_elements C file_path storage_options s =
     and_then
      (and_then
        (and_then
          (and_then
            (and_then
              (if length (images (self s)) \<noteq> 0 then
                 and_then (create_group file_path ''images'' s)
                   (\<lambda>s1. for_each (with_entry images (\<lambda>el cur. add_image C el cur storage_options False False))
                            (py_keys (images (self s1))) s1)
               else (None, s))
              (\<lambda>s. if length (labels (self s)) \<noteq> 0 then
                 and_then (create_group file_path ''labels'' s)
                   (\<lambda>s1. for_each (with_entry labels (\<lambda>el cur. add_labels C el cur storage_options False False))
                            (py_keys (labels (self s1))) s1)
               else (None, s)))
            (\<lambda>s. if length (points (self s)) \<noteq> 0 then
               and_then (create_group file_path ''points'' s)
                 (\<lambda>s1. for_each (with_entry points (\<lambda>el cur. add_points C el cur False False))
                          (py_keys (points (self s1))) s1)
             else (None, s)))
          (\<lambda>s. if length (polygons (self s)) \<noteq> 0 then
             and_then (create_group file_path ''polygons'' s)
               (\<lambda>s1. for_each (with_entry polygons (\<lambda>el cur. add_polygons C el cur False False))
                        (py_keys (polygons (self s1))) s1)
           else (None, s)))
        (\<lambda>s. if length (shapes (self s)) \<noteq> 0 then
           and_then (create_group file_path ''shapes'' s)
             (\<lambda>s1. for_each (with_entry shapes (\<lambda>el cur. add_shapes C el cur False False))
                      (py_keys (shapes (self s1))) s1)
         else (None, s)))
      (\<lambda>s. case table (self s) of
         None \<Rightarrow> (None, s)
       | Some t \<Rightarrow>
         and_then (create_group file_path ''table'' s)
           (on_disk (write_table C (objs (heap s) t) \<lparr>store_path = file_path, group_path = ''table''\<rparr> ''table'')))"

text \<open>
  \<^verbatim>\<open>parse_url(file_path, mode="w").store\<close> with \<^verbatim>\<open>zarr.group(store=store)\<close>: a
  store that is not there is created empty; a store that is there is opened as it is,
  with its groups.
\<close>

definition open_for_writing :: "string \<Rightarrow> state \<Rightarrow> state" where
  "open_for_writing file_path s =
     (if disk s file_path = None then s\<lparr>disk := (disk s)(file_path \<mapsto> Map.empty)\<rparr> else s)"

text \<open>
  \<^verbatim>\<open>write\<close> (here \<open>write_zarr\<close>). \<^verbatim>\<open>parse_url(file_path, mode="r")\<close> is None
  where no store exists at the location. The handler of the \<^verbatim>\<open>try\<close> block resets
  \<^verbatim>\<open>path\<close> and raises the exception again.
\<close>

definition write_zarr :: "collab \<Rightarrow> string \<Rightarrow> storage_options \<Rightarrow> bool \<Rightarrow> state \<Rightarrow> error option \<times> state" where
  "write_zarr C file_path storage_options overwrite s =
     (if is_backed (self s) \<and> path (self s) = Some file_path then (Some SelfOverwrite, s)
      else if \<not> overwrite \<and> disk s file_path \<noteq> None then (Some AlreadyExists, s)
      else
        let s1 = open_for_writing file_path s;
            s2 = s1\<lparr>self := (self s1)\<lparr>path := Some file_path\<rparr>\<rparr>
        in case write_elements C file_path storage_options s2 of
             (Some e, s3) \<Rightarrow> (Some e, s3\<lparr>self := (self s3)\<lparr>path := None\<rparr>\<rparr>)
           | (None, s3) \<Rightarrow> (None, s3))"

subsection \<open>Transformations\<close>

text \<open>The body of \<^verbatim>\<open>set_transformation_in_memory\<close> is its docstring only: nothing is assigned.\<close>

definition set_transformation_in_memory :: "heap \<Rightarrow> ref \<Rightarrow> transformation \<Rightarrow> heap" where
  "set_transformation_in_memory h element transformation = h"

definition get_transformation :: "heap \<Rightarrow> ref \<Rightarrow> transformation option" where
  "get_transformation h element = get_transform (objs h element)"

text \<open>
  The search loop of \<^verbatim>\<open>set_transformation\<close>: every entry, of the five dictionaries in
  order, whose value is the very object \<open>element\<close>, with its type and name.
\<close>

definition find_element :: "SpatialData \<Rightarrow> ref \<Rightarrow> (string \<times> string) list" where
  "find_element sd element =
     concat (map (\<lambda>(element_type, d).
                    map (\<lambda>(element_name, element_value). (element_type, element_name))
                      (filter (\<lambda>(element_name, element_value). element_value = element) d))
        [(''images'', images sd), (''labels'', labels sd), (''points'', points sd),
         (''polygons'', polygons sd), (''shapes'', shapes sd)])"

definition set_transformation ::
  "collab \<Rightarrow> ref \<Rightarrow> transformation \<Rightarrow> state \<Rightarrow> error option \<times> state" where
  "set_transformation C element transformation s =
     (let s1 = s\<lparr>heap := set_transformation_in_memory (heap s) element transformation\<rparr>;
          found = find_element (self s1) element
      in if length found = 0 then (Some NotFound, s1)
         else if length found > 1 then (Some AmbiguousElement, s1)
         else
           (case last found of (found_element_type, found_element_name) \<Rightarrow>
              if path (self s1) \<noteq> None then
                (case get_group_for_element found_element_name found_element_type s1 of
                   (Inl e, s2) \<Rightarrow> (Some e, s2)
                 | (Inr grp, s2) \<Rightarrow>
                   let axes = get_dims (objs (heap s2) element)
                   in (case cls (objs (heap s2) element) of
                         SpatialImage \<Rightarrow>
                           on_disk (overwrite_coordinate_transformations_raster C grp axes [transformation]) s2
                       | MultiscaleSpatialImage \<Rightarrow> (Some NotImplementedError, s2)
                       | _ \<Rightarrow>
                           on_disk (overwrite_coordinate_transformations_non_raster C grp axes transformation) s2))
              else (None, s1)))"

subsection \<open>The bounding-box query\<close>

text \<open>The objects the point query returns are new objects on the heap.\<close>

fun alloc_all :: "heap \<Rightarrow> pyobj pydict \<Rightarrow> ref pydict \<times> heap" where
  "alloc_all h [] = ([], h)"
| "alloc_all h ((k, obj) # kvs) =
     (case alloc h obj of (new, h1) \<Rightarrow> (case alloc_all h1 kvs of (d, h2) \<Rightarrow> ((k, new) # d, h2)))"

definition bounding_box ::
  "collab \<Rightarrow> BoundingBoxRequest \<Rightarrow> state \<Rightarrow> (error + SpatialData) \<times> state" where
  "bounding_box C request s =
     (case alloc_all (heap s)
             (bounding_box_query_points_dict C
                (map (\<lambda>(k, v). (k, objs (heap s) v)) (points (self s))) request) of
        (requested_points, h) \<Rightarrow>
          (SpatialData_init C h [] [] requested_points [] [] None, s\<lparr>heap := h\<rparr>))"

subsection \<open>Sample collaborators and objects\<close>

text \<open>
  Simple collaborators on which the container can be run: the validators reject the
  payload \<open>invalid\<close>, the writers refuse the payload \<open>unwritable\<close> and the
  store \<open>full.zarr\<close> and store every other object under its name, the readers
  return a lazy handle whose payload is the location it reads from, and the point query
  drops the point objects with an empty payload.
\<close>

definition sample_write ::
  "string \<Rightarrow> pyobj \<Rightarrow> zgroup \<Rightarrow> string \<Rightarrow> filesystem \<Rightarrow> error option \<times> filesystem" where
  "sample_write element_type obj g name fs =
     (if payload obj = ''unwritable'' \<or> store_path g = ''full.zarr'' then (Some (IOError name), fs)
      else
        let root = (case fs (store_path g) of None \<Rightarrow> Map.empty | Some r \<Rightarrow> r);
            grp = (case root element_type of None \<Rightarrow> Map.empty | Some x \<Rightarrow> x)
        in (None, fs(store_path g \<mapsto> root(element_type \<mapsto> grp(name \<mapsto> Some obj)))))"

definition sample_collab :: collab where
  "sample_collab =
     \<lparr>validate = (\<lambda>sch obj. payload obj \<noteq> ''invalid''),
      write_image = (\<lambda>obj g name so. sample_write ''images'' obj g name),
      write_labels = (\<lambda>obj g name so. sample_write ''labels'' obj g name),
      write_points = sample_write ''points'',
      write_polygons = sample_write ''polygons'',
      write_shapes = sample_write ''shapes'',
      write_table = sample_write ''table'',
      read_multiscale = (\<lambda>p raster_type fs.
         Inr \<lparr>cls = MultiscaleSpatialImage,
              get_dims = (if raster_type = ''image'' then [''c'', ''y'', ''x''] else [''y'', ''x'']),
              get_transform = Some Identity, payload = p\<rparr>),
      read_points = (\<lambda>p fs.
         Inr \<lparr>cls = PaTable, get_dims = [''x'', ''y''], get_transform = Some Identity, payload = p\<rparr>),
      overwrite_coordinate_transformations_raster = (\<lambda>g axes ts fs. (None, fs)),
      overwrite_coordinate_transformations_non_raster = (\<lambda>g axes t fs. (None, fs)),
      bounding_box_query_points_dict = (\<lambda>d request. filter (\<lambda>(k, obj). payload obj \<noteq> []) d)\<rparr>"

definition sample_obj :: "pyclass \<Rightarrow> string list \<Rightarrow> string \<Rightarrow> pyobj" where
  "sample_obj c axes content =
     \<lparr>cls = c, get_dims = axes, get_transform = Some Identity, payload = content\<rparr>"

text \<open>
  A heap of eight objects: two images (the second cannot be written), labels, points,
  polygons, shapes, a volume with four axes and an array without axes.
\<close>

definition sample_heap :: heap where
  "sample_heap =
     \<lparr>objs = (\<lambda>r. if r = 0 then sample_obj SpatialImage [''c'', ''y'', ''x''] ''pixels''
                  else if r = 1 then sample_obj SpatialImage [''c'', ''y'', ''x''] ''unwritable''
                  else if r = 2 then sample_obj SpatialImage [''y'', ''x''] ''mask''
                  else if r = 3 then sample_obj PaTable [''x'', ''y''] ''rows''
                  else if r = 4 then sample_obj GeoDataFrame [''x'', ''y''] ''rings''
                  else if r = 5 then sample_obj AnnData [''x'', ''y''] ''circles''
                  else if r = 6 then sample_obj SpatialImage [''c'', ''z'', ''y'', ''x''] ''volume''
                  else sample_obj SpatialImage [] ''scalar''),
      fresh = 8\<rparr>"

definition empty_sdata :: SpatialData where
  "empty_sdata =
     \<lparr>images = [], labels = [], points = [], polygons = [], shapes = [], table = None, path = None\<rparr>"

text \<open>One element of each kind, named \<open>a\<close>, no table, not backed.\<close>

definition full_sdata :: SpatialData where
  "full_sdata =
     \<lparr>images = [(''a'', 0)], labels = [(''a'', 2)], points = [(''a'', 3)], polygons = [(''a'', 4)],
      shapes = [(''a'', 5)], table = None, path = None\<rparr>"

subsection \<open>What a write may change in memory\<close>






section \<open>Properties\<close>

subsection \<open>Sequencing\<close>

lemma and_then_Some [simp]: "and_then (Some e, s) f = (Some e, s)"
  by (simp add: and_then_def)

lemma and_then_None [simp]: "and_then (None, s) f = f s"
  by (simp add: and_then_def)

lemma and_then_cases:
  "and_then r f = (e, s') \<Longrightarrow>
     (\<exists>x. e = Some x \<and> r = (Some x, s')) \<or> (\<exists>s1. r = (None, s1) \<and> f s1 = (e, s'))"
  by (cases r) (auto simp: and_then_def split: option.splits)

lemma add_image_in_memory_path: "path (snd (add_image_in_memory C h n r ow sd)) = path sd"
  by (simp add: add_image_in_memory_def Let_def)

lemma add_labels_in_memory_path: "path (snd (add_labels_in_memory C h n r ow sd)) = path sd"
  by (simp add: add_labels_in_memory_def Let_def)

lemma add_points_in_memory_path: "path (snd (add_points_in_memory C h n r ow sd)) = path sd"
  by (simp add: add_points_in_memory_def Let_def)

lemma add_polygons_in_memory_path: "path (snd (add_polygons_in_memory C h n r ow sd)) = path sd"
  by (simp add: add_polygons_in_memory_def Let_def)

lemma add_shapes_in_memory_path: "path (snd (add_shapes_in_memory C h n r ow sd)) = path sd"
  by (simp add: add_shapes_in_memory_def Let_def)

lemma add_all_path:
  assumes "\<And>k v sd. path (snd (add k v sd)) = path sd"
  shows "path (snd (add_all add kvs sd)) = path sd"
proof (induction kvs arbitrary: sd)
  case Nil
  show ?case by simp
next
  case (Cons kv kvs)
  obtain k v where kv: "kv = (k, v)" by (cases kv)
  obtain e sd1 where r: "add k v sd = (e, sd1)" by (cases "add k v sd")
  have p1: "path sd1 = path sd" using assms [of k v sd] r by simp
  show ?case
  proof (cases e)
    case None
    then show ?thesis using kv r p1 Cons.IH [of sd1] by simp
  next
    case (Some x)
    then show ?thesis using kv r p1 by simp
  qed
qed

lemma and_then_path:
  assumes "path (snd r) = p" and "\<And>sd. path sd = p \<Longrightarrow> path (snd (f sd)) = p"
  shows "path (snd (and_then r f)) = p"
  using assms by (cases r) (auto simp: and_then_def split: option.splits)

lemma SpatialData_init_path:
  assumes "SpatialData_init C h imgs lbls pts polys shps tbl = Inr sd"
  shows "path sd = None"
proof -
  let ?sd0 = "\<lparr>images = [], labels = [], points = [], polygons = [], shapes = [],
                 table = None, path = None\<rparr>"
  let ?r1 = "add_all (\<lambda>k v. add_image_in_memory C h k v False) imgs ?sd0"
  let ?r2 = "and_then ?r1 (add_all (\<lambda>k v. add_labels_in_memory C h k v False) lbls)"
  let ?r3 = "and_then ?r2 (add_all (\<lambda>k v. add_polygons_in_memory C h k v False) polys)"
  let ?r4 = "and_then ?r3 (add_all (\<lambda>k v. add_shapes_in_memory C h k v False) shps)"
  let ?r5 = "and_then ?r4 (add_all (\<lambda>k v. add_points_in_memory C h k v False) pts)"
  let ?r6 = "and_then ?r5 (\<lambda>sd. case tbl of None \<Rightarrow> (None, sd)
                 | Some t \<Rightarrow> if validate C Table_s (objs h t) then (None, sd\<lparr>table := Some t\<rparr>)
                             else (Some SchemaViolation, sd))"
  have 1: "path (snd ?r1) = None"
    by (simp add: add_all_path add_image_in_memory_path)
  have 2: "path (snd ?r2) = None"
    by (rule and_then_path [OF 1]) (simp add: add_all_path add_labels_in_memory_path)
  have 3: "path (snd ?r3) = None"
    by (rule and_then_path [OF 2]) (simp add: add_all_path add_polygons_in_memory_path)
  have 4: "path (snd ?r4) = None"
    by (rule and_then_path [OF 3]) (simp add: add_all_path add_shapes_in_memory_path)
  have 5: "path (snd ?r5) = None"
    by (rule and_then_path [OF 4]) (simp add: add_all_path add_points_in_memory_path)
  have 6: "path (snd ?r6) = None"
    by (rule and_then_path [OF 5]) (simp split: option.splits)
  have "?r6 = (None, sd)"
    using assms unfolding SpatialData_init_def Let_def
    by (auto split: prod.splits option.splits)
  with 6 show ?thesis by simp
qed

subsection \<open>Construction\<close>

text \<open>
  C10. Every container the constructor returns, and so every container a bounding-box
  query returns, is unbacked: its \<open>path\<close> is \<open>None\<close> and \<open>is_backed\<close> is false,
  whatever the arguments were.
\<close>

theorem constructed_container_is_unbacked:
  "(SpatialData_init C h imgs lbls pts polys shps tbl = Inr sd \<longrightarrow> path sd = None \<and> \<not> is_backed sd) \<and>
   (fst (bounding_box C request s) = Inr sd' \<longrightarrow> path sd' = None \<and> \<not> is_backed sd')"
  by (auto simp: is_backed_def bounding_box_def SpatialData_init_path split: prod.splits)

theorem constructed_container_is_unbacked_witness:
  "SpatialData_init sample_collab sample_heap [(''a'', 0)] [(''a'', 2)] [(''a'', 3)] [(''a'', 4)] [(''a'', 5)] None
     = Inr full_sdata \<and>
   path full_sdata = None \<and> \<not> is_backed full_sdata \<and>
   fst (bounding_box sample_collab [] \<lparr>self = full_sdata, heap = sample_heap, disk = Map.empty\<rparr>)
     = Inr (empty_sdata\<lparr>points := [(''a'', 8)]\<rparr>) \<and>
   path (empty_sdata\<lparr>points := [(''a'', 8)]\<rparr>) = None \<and> \<not> is_backed (empty_sdata\<lparr>points := [(''a'', 8)]\<rparr>)"
proof -
  have a: "SpatialData_init sample_collab sample_heap [(''a'', 0)] [(''a'', 2)] [(''a'', 3)] [(''a'', 4)] [(''a'', 5)] None
     = Inr full_sdata"
    by (simp add: SpatialData_init_def Let_def add_image_in_memory_def add_labels_in_memory_def
        add_points_in_memory_def add_polygons_in_memory_def add_shapes_in_memory_def
        sample_collab_def sample_heap_def sample_obj_def full_sdata_def py_in_def py_set_def)
  have b: "fst (bounding_box sample_collab [] \<lparr>self = full_sdata, heap = sample_heap, disk = Map.empty\<rparr>)
     = Inr (empty_sdata\<lparr>points := [(''a'', 8)]\<rparr>)"
    by (simp add: bounding_box_def SpatialData_init_def Let_def alloc_def
        add_points_in_memory_def empty_sdata_def
        sample_collab_def sample_heap_def sample_obj_def full_sdata_def py_in_def py_set_def)
  show ?thesis
    using a b constructed_container_is_unbacked [of sample_collab sample_heap "[(''a'', 0)]" "[(''a'', 2)]"
        "[(''a'', 3)]" "[(''a'', 4)]" "[(''a'', 5)]" None full_sdata "[]"
        "\<lparr>self = full_sdata, heap = sample_heap, disk = Map.empty\<rparr>" "empty_sdata\<lparr>points := [(''a'', 8)]\<rparr>"]
    by simp
qed

subsection \<open>Adding in memory\<close>

lemma in_memory_path:
  assumes "\<And>h sd. path (snd (add h sd)) = path sd"
  shows "path (self (snd (in_memory b add s))) = path (self s)"
  using assms [of "heap s" "self s"] by (auto simp: in_memory_def split: prod.splits)

lemma unbacked_skip:
  assumes "path (self s) = None" and "\<And>h sd. path (snd (add h sd)) = path sd"
  shows "and_then (in_memory b add s) (\<lambda>s1. if is_backed (self s1) then f s1 else (None, s1))
           = in_memory b add s"
proof -
  obtain e s1 where r: "in_memory b add s = (e, s1)" by (cases "in_memory b add s")
  have "path (self s1) = None"
    using in_memory_path [of add b s, OF assms(2)] r assms(1) by simp
  then show ?thesis using r by (cases e) (simp_all add: is_backed_def)
qed

text \<open>
  C7. For every kind, an add of a name that the kind's dictionary already holds, without
  \<open>overwrite\<close>, raises the duplicate-name error and leaves the whole state, and so
  the existing entry, as it was. This holds for the in-memory add and for the public
  add, which runs the in-memory add first.
\<close>

theorem add_existing_name_without_overwrite:
  "(py_in name (images (self s)) \<longrightarrow>
      add_image_in_memory C (heap s) name e False (self s) = (Some DuplicateName, self s) \<and>
      add_image C name e storage_options False True s = (Some DuplicateName, s)) \<and>
   (py_in name (labels (self s)) \<longrightarrow>
      add_labels_in_memory C (heap s) name e False (self s) = (Some DuplicateName, self s) \<and>
      add_labels C name e storage_options False True s = (Some DuplicateName, s)) \<and>
   (py_in name (points (self s)) \<longrightarrow>
      add_points_in_memory C (heap s) name e False (self s) = (Some DuplicateName, self s) \<and>
      add_points C name e False True s = (Some DuplicateName, s)) \<and>
   (py_in name (polygons (self s)) \<longrightarrow>
      add_polygons_in_memory C (heap s) name e False (self s) = (Some DuplicateName, self s) \<and>
      add_polygons C name e False True s = (Some DuplicateName, s)) \<and>
   (py_in name (shapes (self s)) \<longrightarrow>
      add_shapes_in_memory C (heap s) name e False (self s) = (Some DuplicateName, self s) \<and>
      add_shapes C name e False True s = (Some DuplicateName, s))"
proof (intro conjI impI)
  assume a: "py_in name (images (self s))"
  then show m: "add_image_in_memory C (heap s) name e False (self s) = (Some DuplicateName, self s)"
    by (simp add: add_image_in_memory_def)
  show "add_image C name e storage_options False True s = (Some DuplicateName, s)"
    unfolding add_image_def by (simp add: in_memory_def m)
next
  assume a: "py_in name (labels (self s))"
  then show m: "add_labels_in_memory C (heap s) name e False (self s) = (Some DuplicateName, self s)"
    by (simp add: add_labels_in_memory_def)
  show "add_labels C name e storage_options False True s = (Some DuplicateName, s)"
    unfolding add_labels_def by (simp add: in_memory_def m)
next
  assume a: "py_in name (points (self s))"
  then show m: "add_points_in_memory C (heap s) name e False (self s) = (Some DuplicateName, self s)"
    by (simp add: add_points_in_memory_def)
  show "add_points C name e False True s = (Some DuplicateName, s)"
    unfolding add_points_def by (simp add: in_memory_def m)
next
  assume a: "py_in name (polygons (self s))"
  then show m: "add_polygons_in_memory C (heap s) name e False (self s) = (Some DuplicateName, self s)"
    by (simp add: add_polygons_in_memory_def)
  show "add_polygons C name e False True s = (Some DuplicateName, s)"
    unfolding add_polygons_def by (simp add: in_memory_def m)
next
  assume a: "py_in name (shapes (self s))"
  then show m: "add_shapes_in_memory C (heap s) name e False (self s) = (Some DuplicateName, self s)"
    by (simp add: add_shapes_in_memory_def)
  show "add_shapes C name e False True s = (Some DuplicateName, s)"
    unfolding add_shapes_def by (simp add: in_memory_def m)
qed

lemma py_in_full:
  "py_in ''a'' (images full_sdata)" "py_in ''a'' (labels full_sdata)" "py_in ''a'' (points full_sdata)"
  "py_in ''a'' (polygons full_sdata)" "py_in ''a'' (shapes full_sdata)"
  by (simp_all add: py_in_def full_sdata_def)

theorem add_existing_name_without_overwrite_witness:
  "py_in ''a'' (images full_sdata) \<and> py_in ''a'' (labels full_sdata) \<and> py_in ''a'' (points full_sdata) \<and>
   py_in ''a'' (polygons full_sdata) \<and> py_in ''a'' (shapes full_sdata) \<and>
   add_image sample_collab ''a'' 1 None False True \<lparr>self = full_sdata, heap = sample_heap, disk = Map.empty\<rparr>
     = (Some DuplicateName, \<lparr>self = full_sdata, heap = sample_heap, disk = Map.empty\<rparr>) \<and>
   add_labels sample_collab ''a'' 1 None False True \<lparr>self = full_sdata, heap = sample_heap, disk = Map.empty\<rparr>
     = (Some DuplicateName, \<lparr>self = full_sdata, heap = sample_heap, disk = Map.empty\<rparr>) \<and>
   add_points sample_collab ''a'' 1 False True \<lparr>self = full_sdata, heap = sample_heap, disk = Map.empty\<rparr>
     = (Some DuplicateName, \<lparr>self = full_sdata, heap = sample_heap, disk = Map.empty\<rparr>) \<and>
   add_polygons sample_collab ''a'' 1 False True \<lparr>self = full_sdata, heap = sample_heap, disk = Map.empty\<rparr>
     = (Some DuplicateName, \<lparr>self = full_sdata, heap = sample_heap, disk = Map.empty\<rparr>) \<and>
   add_shapes sample_collab ''a'' 1 False True \<lparr>self = full_sdata, heap = sample_heap, disk = Map.empty\<rparr>
     = (Some DuplicateName, \<lparr>self = full_sdata, heap = sample_heap, disk = Map.empty\<rparr>) \<and>
   map_of (images full_sdata) ''a'' = Some 0"
  using add_existing_name_without_overwrite
    [of "''a''" "\<lparr>self = full_sdata, heap = sample_heap, disk = Map.empty\<rparr>" sample_collab 1 None]
    py_in_full
  by (simp add: full_sdata_def)

text \<open>
  C8, as first stated, fails: an image with two axes is added under a name the images
  already hold, without \<open>overwrite\<close>. The add raises the duplicate-name error, not
  the unsupported-shape error: the name is checked before the axes are counted.
\<close>

theorem kind_from_number_of_axes_counterexample:
  "py_in ''a'' (images full_sdata) \<and> length (get_dims (objs sample_heap 2)) = 2 \<and>
   add_image_in_memory sample_collab sample_heap ''a'' 2 False full_sdata
     = (Some DuplicateName, full_sdata)"
  by (simp add: add_image_in_memory_def py_in_def full_sdata_def sample_heap_def sample_obj_def)

text \<open>
  C8, amended. An add of an image passes the name check when the name is new to the
  images or \<open>overwrite\<close> is set, and an add of labels when the name is new to the
  labels or \<open>overwrite\<close> is set. Then the schema is chosen by the number of declared
  axes: an image with three axes is validated against the 2D image schema, with four
  against the 3D image schema; labels with two axes against the 2D labels schema, with
  three against the 3D labels schema. Any other number of axes raises the
  unsupported-shape error, and then the element is not inserted: the dictionary is the
  old one without the name. An add that does not pass the name check raises the
  duplicate-name error whatever the axes are.
\<close>

theorem kind_from_number_of_axes:
  "(\<not> py_in name (images sd) \<or> overwrite \<longrightarrow>
     (let r = add_image_in_memory C h name e overwrite sd; ndim = length (get_dims (objs h e)) in
      (ndim = 3 \<longrightarrow> fst r = (if validate C Image2D_s (objs h e) then None else Some SchemaViolation)) \<and>
      (ndim = 4 \<longrightarrow> fst r = (if validate C Image3D_s (objs h e) then None else Some SchemaViolation)) \<and>
      (ndim \<noteq> 3 \<and> ndim \<noteq> 4 \<longrightarrow> fst r = Some UnsupportedShape) \<and>
      (fst r = None \<longrightarrow> images (snd r) = py_set name e (py_del name (images sd))) \<and>
      (fst r \<noteq> None \<longrightarrow> images (snd r) = py_del name (images sd)) \<and>
      labels (snd r) = labels sd)) \<and>
   (\<not> py_in name (labels sd) \<or> overwrite \<longrightarrow>
     (let r = add_labels_in_memory C h name e overwrite sd; ndim = length (get_dims (objs h e)) in
      (ndim = 2 \<longrightarrow> fst r = (if validate C Label2D_s (objs h e) then None else Some SchemaViolation)) \<and>
      (ndim = 3 \<longrightarrow> fst r = (if validate C Label3D_s (objs h e) then None else Some SchemaViolation)) \<and>
      (ndim \<noteq> 2 \<and> ndim \<noteq> 3 \<longrightarrow> fst r = Some UnsupportedShape) \<and>
      (fst r = None \<longrightarrow> labels (snd r) = py_set name e (py_del name (labels sd))) \<and>
      (fst r \<noteq> None \<longrightarrow> labels (snd r) = py_del name (labels sd)) \<and>
      images (snd r) = images sd)) \<and>
   (py_in name (images sd) \<and> \<not> overwrite \<longrightarrow>
      add_image_in_memory C h name e overwrite sd = (Some DuplicateName, sd)) \<and>
   (py_in name (labels sd) \<and> \<not> overwrite \<longrightarrow>
      add_labels_in_memory C h name e overwrite sd = (Some DuplicateName, sd))"
proof -
  have d: "\<And>d :: ref pydict. \<not> py_in name d \<Longrightarrow> py_del name d = d"
    by (simp add: py_in_def py_del_def)
  have 1: "\<not> py_in name (images sd) \<or> overwrite \<Longrightarrow>
     (let r = add_image_in_memory C h name e overwrite sd; ndim = length (get_dims (objs h e)) in
      (ndim = 3 \<longrightarrow> fst r = (if validate C Image2D_s (objs h e) then None else Some SchemaViolation)) \<and>
      (ndim = 4 \<longrightarrow> fst r = (if validate C Image3D_s (objs h e) then None else Some SchemaViolation)) \<and>
      (ndim \<noteq> 3 \<and> ndim \<noteq> 4 \<longrightarrow> fst r = Some UnsupportedShape) \<and>
      (fst r = None \<longrightarrow> images (snd r) = py_set name e (py_del name (images sd))) \<and>
      (fst r \<noteq> None \<longrightarrow> images (snd r) = py_del name (images sd)) \<and>
      labels (snd r) = labels sd)"
    by (auto simp: add_image_in_memory_def Let_def d)
  have 2: "\<not> py_in name (labels sd) \<or> overwrite \<Longrightarrow>
     (let r = add_labels_in_memory C h name e overwrite sd; ndim = length (get_dims (objs h e)) in
      (ndim = 2 \<longrightarrow> fst r = (if validate C Label2D_s (objs h e) then None else Some SchemaViolation)) \<and>
      (ndim = 3 \<longrightarrow> fst r = (if validate C Label3D_s (objs h e) then None else Some SchemaViolation)) \<and>
      (ndim \<noteq> 2 \<and> ndim \<noteq> 3 \<longrightarrow> fst r = Some UnsupportedShape) \<and>
      (fst r = None \<longrightarrow> labels (snd r) = py_set name e (py_del name (labels sd))) \<and>
      (fst r \<noteq> None \<longrightarrow> labels (snd r) = py_del name (labels sd)) \<and>
      images (snd r) = images sd)"
    by (auto simp: add_labels_in_memory_def Let_def d)
  have 3: "py_in name (images sd) \<and> \<not> overwrite \<Longrightarrow>
      add_image_in_memory C h name e overwrite sd = (Some DuplicateName, sd)"
    by (simp add: add_image_in_memory_def)
  have 4: "py_in name (labels sd) \<and> \<not> overwrite \<Longrightarrow>
      add_labels_in_memory C h name e overwrite sd = (Some DuplicateName, sd)"
    by (simp add: add_labels_in_memory_def)
  show ?thesis using 1 2 3 4 by blast
qed

theorem kind_from_number_of_axes_witness:
  "add_image_in_memory sample_collab sample_heap ''b'' 0 False full_sdata
     = (None, full_sdata\<lparr>images := [(''a'', 0), (''b'', 0)]\<rparr>) \<and>
   add_image_in_memory sample_collab sample_heap ''b'' 6 False full_sdata
     = (None, full_sdata\<lparr>images := [(''a'', 0), (''b'', 6)]\<rparr>) \<and>
   add_image_in_memory sample_collab sample_heap ''b'' 2 False full_sdata
     = (Some UnsupportedShape, full_sdata) \<and>
   add_image_in_memory sample_collab sample_heap ''a'' 6 True full_sdata
     = (None, full_sdata\<lparr>images := [(''a'', 6)]\<rparr>) \<and>
   add_image_in_memory sample_collab sample_heap ''a'' 2 True full_sdata
     = (Some UnsupportedShape, full_sdata\<lparr>images := []\<rparr>) \<and>
   add_image_in_memory sample_collab sample_heap ''a'' 6 False full_sdata
     = (Some DuplicateName, full_sdata) \<and>
   add_labels_in_memory sample_collab sample_heap ''b'' 2 False full_sdata
     = (None, full_sdata\<lparr>labels := [(''a'', 2), (''b'', 2)]\<rparr>) \<and>
   add_labels_in_memory sample_collab sample_heap ''b'' 0 False full_sdata
     = (None, full_sdata\<lparr>labels := [(''a'', 2), (''b'', 0)]\<rparr>) \<and>
   add_labels_in_memory sample_collab sample_heap ''b'' 6 False full_sdata
     = (Some UnsupportedShape, full_sdata) \<and>
   add_labels_in_memory sample_collab sample_heap ''a'' 0 True full_sdata
     = (None, full_sdata\<lparr>labels := [(''a'', 0)]\<rparr>) \<and>
   add_labels_in_memory sample_collab sample_heap ''a'' 6 True full_sdata
     = (Some UnsupportedShape, full_sdata\<lparr>labels := []\<rparr>) \<and>
   add_labels_in_memory sample_collab sample_heap ''a'' 2 False full_sdata
     = (Some DuplicateName, full_sdata)"
proof -
  have n: "\<not> py_in ''b'' (images full_sdata) \<or> False" "\<not> py_in ''b'' (labels full_sdata) \<or> False"
    by (simp_all add: py_in_def full_sdata_def)
  have o: "\<not> py_in ''a'' (images full_sdata) \<or> True" "\<not> py_in ''a'' (labels full_sdata) \<or> True"
    by simp_all
  have h: "py_in ''a'' (images full_sdata) \<and> \<not> False" "py_in ''a'' (labels full_sdata) \<and> \<not> False"
    by (simp_all add: py_in_def full_sdata_def)
  have v: "\<And>sch r. validate sample_collab sch (objs sample_heap r)"
    by (simp add: sample_collab_def sample_heap_def sample_obj_def)
  have d: "length (get_dims (objs sample_heap 0)) = 3" "length (get_dims (objs sample_heap 6)) = 4"
    "length (get_dims (objs sample_heap 2)) = 2"
    by (simp_all add: sample_heap_def sample_obj_def)
  have i: "py_set ''b'' r (py_del ''b'' (images full_sdata)) = [(''a'', 0), (''b'', r)]"
    "py_del ''b'' (images full_sdata) = images full_sdata"
    "py_set ''b'' r (py_del ''b'' (labels full_sdata)) = [(''a'', 2), (''b'', r)]"
    "py_del ''b'' (labels full_sdata) = labels full_sdata"
    "py_set ''a'' r (py_del ''a'' (images full_sdata)) = [(''a'', r)]"
    "py_del ''a'' (images full_sdata) = []"
    "py_set ''a'' r (py_del ''a'' (labels full_sdata)) = [(''a'', r)]"
    "py_del ''a'' (labels full_sdata) = []" for r
    by (simp_all add: py_set_def py_del_def full_sdata_def)
  have eq: "fst r = e \<Longrightarrow> images (snd r) = im \<Longrightarrow> labels (snd r) = lb \<Longrightarrow>
      points (snd r) = points sd \<and> polygons (snd r) = polygons sd \<and> shapes (snd r) = shapes sd \<and>
      table (snd r) = table sd \<and> path (snd r) = path sd \<Longrightarrow>
      r = (e, sd\<lparr>images := im, labels := lb\<rparr>)"
    for r and e :: "error option" and im lb and sd :: SpatialData
    by (cases r) auto
  note t = kind_from_number_of_axes [where C = sample_collab and h = sample_heap and sd = full_sdata]
  note kb = t [where name = "''b''" and overwrite = False, THEN conjunct1, THEN mp, OF n(1), unfolded Let_def]
  note lb = t [where name = "''b''" and overwrite = False, THEN conjunct2, THEN conjunct1, THEN mp, OF n(2),
      unfolded Let_def]
  note ka = t [where name = "''a''" and overwrite = True, THEN conjunct1, THEN mp, OF o(1), unfolded Let_def]
  note la = t [where name = "''a''" and overwrite = True, THEN conjunct2, THEN conjunct1, THEN mp, OF o(2),
      unfolded Let_def]
  note kd = t [where name = "''a''" and overwrite = False, THEN conjunct2, THEN conjunct2, THEN conjunct1,
      THEN mp, OF h(1)]
  note ld = t [where name = "''a''" and overwrite = False, THEN conjunct2, THEN conjunct2, THEN conjunct2,
      THEN mp, OF h(2)]
  have fi: "points (snd (add_image_in_memory C h nm r ow sd)) = points sd \<and>
            polygons (snd (add_image_in_memory C h nm r ow sd)) = polygons sd \<and>
            shapes (snd (add_image_in_memory C h nm r ow sd)) = shapes sd \<and>
            table (snd (add_image_in_memory C h nm r ow sd)) = table sd \<and>
            path (snd (add_image_in_memory C h nm r ow sd)) = path sd" for C h nm r ow sd
    by (simp add: add_image_in_memory_def Let_def)
  have fl: "points (snd (add_labels_in_memory C h nm r ow sd)) = points sd \<and>
            polygons (snd (add_labels_in_memory C h nm r ow sd)) = polygons sd \<and>
            shapes (snd (add_labels_in_memory C h nm r ow sd)) = shapes sd \<and>
            table (snd (add_labels_in_memory C h nm r ow sd)) = table sd \<and>
            path (snd (add_labels_in_memory C h nm r ow sd)) = path sd" for C h nm r ow sd
    by (simp add: add_labels_in_memory_def Let_def)
  have 1: "add_image_in_memory sample_collab sample_heap ''b'' 0 False full_sdata
     = (None, full_sdata\<lparr>images := [(''a'', 0), (''b'', 0)], labels := labels full_sdata\<rparr>)"
    by (rule eq) (use kb [of 0] v d i fi in simp_all)
  have 2: "add_image_in_memory sample_collab sample_heap ''b'' 6 False full_sdata
     = (None, full_sdata\<lparr>images := [(''a'', 0), (''b'', 6)], labels := labels full_sdata\<rparr>)"
    by (rule eq) (use kb [of 6] v d i fi in simp_all)
  have 3: "add_image_in_memory sample_collab sample_heap ''b'' 2 False full_sdata
     = (Some UnsupportedShape, full_sdata\<lparr>images := images full_sdata, labels := labels full_sdata\<rparr>)"
    by (rule eq) (use kb [of 2] v d i fi in simp_all)
  have 4: "add_image_in_memory sample_collab sample_heap ''a'' 6 True full_sdata
     = (None, full_sdata\<lparr>images := [(''a'', 6)], labels := labels full_sdata\<rparr>)"
    by (rule eq) (use ka [of 6] v d i fi in simp_all)
  have 5: "add_image_in_memory sample_collab sample_heap ''a'' 2 True full_sdata
     = (Some UnsupportedShape, full_sdata\<lparr>images := [], labels := labels full_sdata\<rparr>)"
    by (rule eq) (use ka [of 2] v d i fi in simp_all)
  have 6: "add_labels_in_memory sample_collab sample_heap ''b'' 2 False full_sdata
     = (None, full_sdata\<lparr>images := images full_sdata, labels := [(''a'', 2), (''b'', 2)]\<rparr>)"
    by (rule eq) (use lb [of 2] v d i fl in simp_all)
  have 7: "add_labels_in_memory sample_collab sample_heap ''b'' 0 False full_sdata
     = (None, full_sdata\<lparr>images := images full_sdata, labels := [(''a'', 2), (''b'', 0)]\<rparr>)"
    by (rule eq) (use lb [of 0] v d i fl in simp_all)
  have 8: "add_labels_in_memory sample_collab sample_heap ''b'' 6 False full_sdata
     = (Some UnsupportedShape, full_sdata\<lparr>images := images full_sdata, labels := labels full_sdata\<rparr>)"
    by (rule eq) (use lb [of 6] v d i fl in simp_all)
  have 9: "add_labels_in_memory sample_collab sample_heap ''a'' 0 True full_sdata
     = (None, full_sdata\<lparr>images := images full_sdata, labels := [(''a'', 0)]\<rparr>)"
    by (rule eq) (use la [of 0] v d i fl in simp_all)
  have 10: "add_labels_in_memory sample_collab sample_heap ''a'' 6 True full_sdata
     = (Some UnsupportedShape, full_sdata\<lparr>images := images full_sdata, labels := []\<rparr>)"
    by (rule eq) (use la [of 6] v d i fl in simp_all)
  show ?thesis using 1 2 3 4 5 6 7 8 9 10 kd [of 6] ld [of 2] by simp
qed

subsection \<open>Writing\<close>

text \<open>
  C9. On an unbacked container, \<open>write\<close> without \<open>overwrite\<close> to a location where
  a store exists raises the already-exists error and changes nothing: \<open>path\<close> is still
  \<open>None\<close>.
\<close>

theorem write_to_existing_location:
  assumes "path (self s) = None" and "disk s file_path \<noteq> None"
  shows "write_zarr C file_path storage_options False s = (Some AlreadyExists, s) \<and>
         path (self (snd (write_zarr C file_path storage_options False s))) = None"
  using assms by (simp add: write_zarr_def is_backed_def)

theorem write_to_existing_location_witness:
  "path (self \<lparr>self = full_sdata, heap = sample_heap, disk = [''x.zarr'' \<mapsto> Map.empty]\<rparr>) = None \<and>
   disk \<lparr>self = full_sdata, heap = sample_heap, disk = [''x.zarr'' \<mapsto> Map.empty]\<rparr> ''x.zarr'' \<noteq> None \<and>
   write_zarr sample_collab ''x.zarr'' None False
      \<lparr>self = full_sdata, heap = sample_heap, disk = [''x.zarr'' \<mapsto> Map.empty]\<rparr>
     = (Some AlreadyExists, \<lparr>self = full_sdata, heap = sample_heap, disk = [''x.zarr'' \<mapsto> Map.empty]\<rparr>)"
proof -
  have p: "path (self \<lparr>self = full_sdata, heap = sample_heap, disk = [''x.zarr'' \<mapsto> Map.empty]\<rparr>) = None"
    by (simp add: full_sdata_def)
  have d: "disk \<lparr>self = full_sdata, heap = sample_heap, disk = [''x.zarr'' \<mapsto> Map.empty]\<rparr> ''x.zarr'' \<noteq> None"
    by simp
  show ?thesis
    using write_to_existing_location [OF p d, of sample_collab None] p d by simp
qed

subsection \<open>Adding to an unbacked container\<close>

lemma in_memory_not_NotBacked:
  assumes "\<And>h sd. fst (add h sd) \<noteq> Some NotBacked"
  shows "fst (in_memory b add s) \<noteq> Some NotBacked"
  using assms [of "heap s" "self s"] by (auto simp: in_memory_def split: prod.splits)

text \<open>
  C4, as first stated, fails: on an unbacked container \<open>add_image\<close> does not raise the
  not-backed error, it inserts the image in memory and returns.
\<close>

theorem add_on_unbacked_container_counterexample:
  "path (self \<lparr>self = empty_sdata, heap = sample_heap, disk = Map.empty\<rparr>) = None \<and>
   add_image sample_collab ''a'' 0 None False True \<lparr>self = empty_sdata, heap = sample_heap, disk = Map.empty\<rparr>
     = (None, \<lparr>self = empty_sdata\<lparr>images := [(''a'', 0)]\<rparr>, heap = sample_heap, disk = Map.empty\<rparr>)"
  by (simp add: add_image_def in_memory_def add_image_in_memory_def is_backed_def Let_def
      empty_sdata_def sample_collab_def sample_heap_def sample_obj_def py_in_def py_set_def)

text \<open>
  C4, amended. On an unbacked container only \<open>_init_add_element\<close> itself raises the
  not-backed error. Every \<open>add_<kind>\<close> tests \<open>is_backed\<close> before it calls
  \<open>_init_add_element\<close>, so on an unbacked container it does what the in-memory add does
  and no more: it never raises the not-backed error and leaves heap and store alone.
\<close>

theorem add_on_unbacked_container:
  assumes "path (self s) = None"
  shows "init_add_element name element_type overwrite s = (Inl NotBacked, s) \<and>
    add_image C name e storage_options overwrite aim s
      = in_memory aim (\<lambda>h. add_image_in_memory C h name e overwrite) s \<and>
    add_labels C name e storage_options overwrite aim s
      = in_memory aim (\<lambda>h. add_labels_in_memory C h name e overwrite) s \<and>
    add_points C name e overwrite aim s
      = in_memory aim (\<lambda>h. add_points_in_memory C h name e overwrite) s \<and>
    add_polygons C name e overwrite aim s
      = in_memory aim (\<lambda>h. add_polygons_in_memory C h name e overwrite) s \<and>
    add_shapes C name e overwrite aim s
      = in_memory aim (\<lambda>h. add_shapes_in_memory C h name e overwrite) s \<and>
    fst (add_image C name e storage_options overwrite aim s) \<noteq> Some NotBacked \<and>
    fst (add_labels C name e storage_options overwrite aim s) \<noteq> Some NotBacked \<and>
    fst (add_points C name e overwrite aim s) \<noteq> Some NotBacked \<and>
    fst (add_polygons C name e overwrite aim s) \<noteq> Some NotBacked \<and>
    fst (add_shapes C name e overwrite aim s) \<noteq> Some NotBacked"
proof -
  have 0: "init_add_element name element_type overwrite s = (Inl NotBacked, s)"
    using assms by (simp add: init_add_element_def)
  have 1: "add_image C name e storage_options overwrite aim s
      = in_memory aim (\<lambda>h. add_image_in_memory C h name e overwrite) s"
    unfolding add_image_def by (rule unbacked_skip [OF assms]) (rule add_image_in_memory_path)
  have 2: "add_labels C name e storage_options overwrite aim s
      = in_memory aim (\<lambda>h. add_labels_in_memory C h name e overwrite) s"
    unfolding add_labels_def by (rule unbacked_skip [OF assms]) (rule add_labels_in_memory_path)
  have 3: "add_points C name e overwrite aim s
      = in_memory aim (\<lambda>h. add_points_in_memory C h name e overwrite) s"
    unfolding add_points_def by (rule unbacked_skip [OF assms]) (rule add_points_in_memory_path)
  have 4: "add_polygons C name e overwrite aim s
      = in_memory aim (\<lambda>h. add_polygons_in_memory C h name e overwrite) s"
    unfolding add_polygons_def by (rule unbacked_skip [OF assms]) (rule add_polygons_in_memory_path)
  have 5: "add_shapes C name e overwrite aim s
      = in_memory aim (\<lambda>h. add_shapes_in_memory C h name e overwrite) s"
    unfolding add_shapes_def by (rule unbacked_skip [OF assms]) (rule add_shapes_in_memory_path)
  have 6: "fst (in_memory aim (\<lambda>h. add_image_in_memory C h name e overwrite) s) \<noteq> Some NotBacked"
    by (rule in_memory_not_NotBacked) (simp add: add_image_in_memory_def Let_def)
  have 7: "fst (in_memory aim (\<lambda>h. add_labels_in_memory C h name e overwrite) s) \<noteq> Some NotBacked"
    by (rule in_memory_not_NotBacked) (simp add: add_labels_in_memory_def Let_def)
  have 8: "fst (in_memory aim (\<lambda>h. add_points_in_memory C h name e overwrite) s) \<noteq> Some NotBacked"
    by (rule in_memory_not_NotBacked) (simp add: add_points_in_memory_def Let_def)
  have 9: "fst (in_memory aim (\<lambda>h. add_polygons_in_memory C h name e overwrite) s) \<noteq> Some NotBacked"
    by (rule in_memory_not_NotBacked) (simp add: add_polygons_in_memory_def Let_def)
  have 10: "fst (in_memory aim (\<lambda>h. add_shapes_in_memory C h name e overwrite) s) \<noteq> Some NotBacked"
    by (rule in_memory_not_NotBacked) (simp add: add_shapes_in_memory_def Let_def)
  show ?thesis
    using 0 1 2 3 4 5 6 7 8 9 10 by simp
qed

theorem add_on_unbacked_container_witness:
  "path (self \<lparr>self = full_sdata, heap = sample_heap, disk = Map.empty\<rparr>) = None \<and>
   init_add_element ''b'' ''images'' False \<lparr>self = full_sdata, heap = sample_heap, disk = Map.empty\<rparr>
     = (Inl NotBacked, \<lparr>self = full_sdata, heap = sample_heap, disk = Map.empty\<rparr>) \<and>
   add_polygons sample_collab ''b'' 4 False True \<lparr>self = full_sdata, heap = sample_heap, disk = Map.empty\<rparr>
     = (None, \<lparr>self = full_sdata\<lparr>polygons := [(''a'', 4), (''b'', 4)]\<rparr>, heap = sample_heap, disk = Map.empty\<rparr>)"
proof -
  have p: "path (self \<lparr>self = full_sdata, heap = sample_heap, disk = Map.empty\<rparr>) = None"
    by (simp add: full_sdata_def)
  have m: "in_memory True (\<lambda>h. add_polygons_in_memory sample_collab h ''b'' 4 False)
             \<lparr>self = full_sdata, heap = sample_heap, disk = Map.empty\<rparr>
     = (None, \<lparr>self = full_sdata\<lparr>polygons := [(''a'', 4), (''b'', 4)]\<rparr>, heap = sample_heap, disk = Map.empty\<rparr>)"
    by (simp add: in_memory_def add_polygons_in_memory_def Let_def full_sdata_def
        sample_collab_def sample_heap_def sample_obj_def py_in_def py_set_def)
  show ?thesis
    using add_on_unbacked_container [OF p, of "''b''" "''images''" False sample_collab 4 None True] p m
    by simp
qed

subsection \<open>Transformations\<close>

lemma get_group_for_element_frame:
  "self (snd (get_group_for_element name element_type s)) = self s \<and>
   heap (snd (get_group_for_element name element_type s)) = heap s"
  by (simp add: get_group_for_element_def Let_def split: option.splits)

lemma set_transformation_heap: "heap (snd (set_transformation C element t s)) = heap s"
proof -
  obtain g s2 where
    i: "get_group_for_element (snd (last (find_element (self s) element)))
          (fst (last (find_element (self s) element))) s = (g, s2)"
    by (cases "get_group_for_element (snd (last (find_element (self s) element)))
          (fst (last (find_element (self s) element))) s")
  have "heap s2 = heap s"
    using get_group_for_element_frame
      [of "snd (last (find_element (self s) element))" "fst (last (find_element (self s) element))" s] i
    by simp
  then show ?thesis
    using i
    by (auto simp: set_transformation_def set_transformation_in_memory_def Let_def on_disk_def
        split: prod.splits sum.splits pyclass.splits)
qed

text \<open>
  C2. \<open>set_transformation\<close> on an image held once by an unbacked container returns
  without an exception, and \<open>get_transformation\<close> afterwards still gives the old
  transformation, not the one that was set.
\<close>

theorem set_transformation_keeps_old_transformation:
  "fst (set_transformation sample_collab 0 (Scale [2, 2])
          \<lparr>self = full_sdata, heap = sample_heap, disk = Map.empty\<rparr>) = None \<and>
   get_transformation
     (heap (snd (set_transformation sample_collab 0 (Scale [2, 2])
          \<lparr>self = full_sdata, heap = sample_heap, disk = Map.empty\<rparr>))) 0 = Some Identity \<and>
   find_element full_sdata 0 = [(''images'', ''a'')]"
  by (simp add: set_transformation_def set_transformation_in_memory_def get_transformation_def
      find_element_def full_sdata_def sample_heap_def sample_obj_def Let_def)

subsection \<open>A failed write of a backed container\<close>

text \<open>
  C5. A container backed by \<open>a.zarr\<close> is written to a second location whose store
  refuses the first element: the handler of \<open>write\<close> sets \<open>path\<close> to \<open>None\<close>, and
  the container that was backed is unbacked.
\<close>

theorem failed_write_unbacks_backed_container:
  "is_backed (full_sdata\<lparr>path := Some ''a.zarr''\<rparr>) \<and>
   fst (write_zarr sample_collab ''full.zarr'' None False
          \<lparr>self = full_sdata\<lparr>path := Some ''a.zarr''\<rparr>, heap = sample_heap,
           disk = [''a.zarr'' \<mapsto> Map.empty]\<rparr>) = Some (IOError ''a'') \<and>
   \<not> is_backed (self (snd (write_zarr sample_collab ''full.zarr'' None False
          \<lparr>self = full_sdata\<lparr>path := Some ''a.zarr''\<rparr>, heap = sample_heap,
           disk = [''a.zarr'' \<mapsto> Map.empty]\<rparr>)))"
  by (simp add: write_zarr_def open_for_writing_def write_elements_def create_group_def with_entry_def py_keys_def
      add_image_def in_memory_def on_disk_def init_add_element_def element_types_def
      is_backed_def Let_def full_sdata_def sample_collab_def sample_write_def
      sample_heap_def sample_obj_def)

subsection \<open>The result of a bounding-box query\<close>

lemma and_then_return [simp]: "and_then r (Pair None) = r"
  by (cases r) (auto simp: and_then_def split: option.splits)

lemma py_set_new: "\<not> py_in k d \<Longrightarrow> py_set k v d = d @ [(k, v)]"
  unfolding py_in_def py_set_def by (induction d) auto

lemma py_in_append: "py_in k (d @ d') = (py_in k d \<or> py_in k d')"
  by (auto simp: py_in_def)

lemma add_all_points_new:
  assumes "distinct (map fst kvs)"
    and "\<forall>k \<in> set (map fst kvs). \<not> py_in k (points sd)"
    and "\<forall>(k, v) \<in> set kvs. validate C Point_s (objs h v)"
  shows "add_all (\<lambda>k v. add_points_in_memory C h k v False) kvs sd
           = (None, sd\<lparr>points := points sd @ kvs\<rparr>)"
  using assms
proof (induction kvs arbitrary: sd)
  case Nil
  show ?case by simp
next
  case (Cons kv kvs)
  obtain k v where kv: "kv = (k, v)" by (cases kv)
  let ?sd1 = "sd\<lparr>points := points sd @ [(k, v)]\<rparr>"
  have step: "add_points_in_memory C h k v False sd = (None, ?sd1)"
    using Cons.prems kv by (simp add: add_points_in_memory_def py_set_new)
  have "\<forall>k' \<in> set (map fst kvs). \<not> py_in k' (points ?sd1)"
    using Cons.prems kv by (auto simp: py_in_append py_in_def)
  then have "add_all (\<lambda>k v. add_points_in_memory C h k v False) kvs ?sd1
           = (None, ?sd1\<lparr>points := points ?sd1 @ kvs\<rparr>)"
    using Cons.prems by (intro Cons.IH) auto
  then show ?case using kv step by simp
qed

lemma alloc_all_props:
  "alloc_all h kvs = (d, h') \<Longrightarrow>
     fresh h \<le> fresh h' \<and> (\<forall>r < fresh h. objs h' r = objs h r) \<and> map fst d = map fst kvs \<and>
     (\<forall>(k, r) \<in> set d. fresh h \<le> r \<and> r < fresh h' \<and> (k, objs h' r) \<in> set kvs)"
proof (induction kvs arbitrary: h d h')
  case Nil
  then show ?case by simp
next
  case (Cons kv kvs)
  obtain k obj where kv: "kv = (k, obj)" by (cases kv)
  let ?h1 = "h\<lparr>objs := (objs h)(fresh h := obj), fresh := Suc (fresh h)\<rparr>"
  obtain d1 where a: "alloc_all ?h1 kvs = (d1, h')" and d: "d = (k, fresh h) # d1"
    using Cons.prems kv by (auto simp: alloc_def split: prod.splits)
  note ih = Cons.IH [OF a]
  have f: "objs h' (fresh h) = obj" using ih by simp
  show ?case
    using ih d kv f by (auto simp: less_Suc_eq)
qed

lemma SpatialData_init_points_only:
  assumes "distinct (map fst pts)" and "\<forall>(k, v) \<in> set pts. validate C Point_s (objs h v)"
  shows "SpatialData_init C h [] [] pts [] [] None = Inr (empty_sdata\<lparr>points := pts\<rparr>)"
  using add_all_points_new [OF assms(1) _ assms(2), of empty_sdata]
  by (simp add: SpatialData_init_def empty_sdata_def py_in_def)

lemma SpatialData_init_points_shape:
  assumes "SpatialData_init C h [] [] pts [] [] None = Inr sd"
  shows "images sd = [] \<and> labels sd = [] \<and> polygons sd = [] \<and> shapes sd = [] \<and> table sd = None \<and>
         set (points sd) \<subseteq> set pts"
proof -
  have inv: "images (snd (add_all (\<lambda>k v. add_points_in_memory C h k v False) kvs sd0)) = images sd0 \<and>
     labels (snd (add_all (\<lambda>k v. add_points_in_memory C h k v False) kvs sd0)) = labels sd0 \<and>
     polygons (snd (add_all (\<lambda>k v. add_points_in_memory C h k v False) kvs sd0)) = polygons sd0 \<and>
     shapes (snd (add_all (\<lambda>k v. add_points_in_memory C h k v False) kvs sd0)) = shapes sd0 \<and>
     table (snd (add_all (\<lambda>k v. add_points_in_memory C h k v False) kvs sd0)) = table sd0 \<and>
     set (points (snd (add_all (\<lambda>k v. add_points_in_memory C h k v False) kvs sd0)))
       \<subseteq> set (points sd0) \<union> set kvs" for kvs sd0
  proof (induction kvs arbitrary: sd0)
    case Nil
    show ?case by simp
  next
    case (Cons kv kvs)
    obtain k v where kv: "kv = (k, v)" by (cases kv)
    show ?case
    proof (cases "py_in k (points sd0) \<or> \<not> validate C Point_s (objs h v)")
      case True
      then show ?thesis using kv by (auto simp: add_points_in_memory_def)
    next
      case False
      then have "add_points_in_memory C h k v False sd0 = (None, sd0\<lparr>points := points sd0 @ [(k, v)]\<rparr>)"
        by (simp add: add_points_in_memory_def py_set_new)
      then show ?thesis
        using kv Cons.IH [of "sd0\<lparr>points := points sd0 @ [(k, v)]\<rparr>"] by auto
    qed
  qed
  have "add_all (\<lambda>k v. add_points_in_memory C h k v False) pts empty_sdata = (None, sd)"
    using assms by (simp add: SpatialData_init_def empty_sdata_def split: prod.splits option.splits)
  then show ?thesis using inv [of pts empty_sdata] by (simp add: empty_sdata_def)
qed

text \<open>
  C6. The query does not touch the source: its collections, table and path, the store
  and every object that existed before are as they were. A container it returns is a
  new, unbacked container that holds points only, and those are new objects. It returns
  such a container whenever the point objects that the query collaborator produced pass
  the points schema.
\<close>

theorem bounding_box_new_container_source_unchanged:
  "self (snd (bounding_box C request s)) = self s \<and>
   disk (snd (bounding_box C request s)) = disk s \<and>
   (\<forall>r < fresh (heap s). objs (heap (snd (bounding_box C request s))) r = objs (heap s) r) \<and>
   (\<forall>sd. fst (bounding_box C request s) = Inr sd \<longrightarrow>
      path sd = None \<and> \<not> is_backed sd \<and>
      images sd = [] \<and> labels sd = [] \<and> polygons sd = [] \<and> shapes sd = [] \<and> table sd = None \<and>
      (\<forall>(k, r) \<in> set (points sd). fresh (heap s) \<le> r)) \<and>
   (distinct (map fst (bounding_box_query_points_dict C
        (map (\<lambda>(k, v). (k, objs (heap s) v)) (points (self s))) request)) \<and>
    (\<forall>(k, obj) \<in> set (bounding_box_query_points_dict C
        (map (\<lambda>(k, v). (k, objs (heap s) v)) (points (self s))) request). validate C Point_s obj)
    \<longrightarrow> (\<exists>sd. fst (bounding_box C request s) = Inr sd))"
proof -
  let ?q = "bounding_box_query_points_dict C
        (map (\<lambda>(k, v). (k, objs (heap s) v)) (points (self s))) request"
  obtain d h' where a: "alloc_all (heap s) ?q = (d, h')" by (cases "alloc_all (heap s) ?q")
  note p = alloc_all_props [OF a]
  have b: "bounding_box C request s = (SpatialData_init C h' [] [] d [] [] None, s\<lparr>heap := h'\<rparr>)"
    using a by (simp add: bounding_box_def)
  have 1: "self (snd (bounding_box C request s)) = self s" "disk (snd (bounding_box C request s)) = disk s"
    using b by simp_all
  have 2: "\<forall>r < fresh (heap s). objs (heap (snd (bounding_box C request s))) r = objs (heap s) r"
    using b p by simp
  have 3: "path sd = None \<and> \<not> is_backed sd \<and>
      images sd = [] \<and> labels sd = [] \<and> polygons sd = [] \<and> shapes sd = [] \<and> table sd = None \<and>
      (\<forall>(k, r) \<in> set (points sd). fresh (heap s) \<le> r)"
    if "fst (bounding_box C request s) = Inr sd" for sd
  proof -
    have i: "SpatialData_init C h' [] [] d [] [] None = Inr sd" using that b by simp
    show ?thesis
      using SpatialData_init_path [OF i] SpatialData_init_points_shape [OF i] p
      by (auto simp: is_backed_def)
  qed
  have 4: "\<exists>sd. fst (bounding_box C request s) = Inr sd"
    if "distinct (map fst ?q)" and "\<forall>(k, obj) \<in> set ?q. validate C Point_s obj"
  proof -
    have "distinct (map fst d)" using p that(1) by simp
    moreover have "\<forall>(k, v) \<in> set d. validate C Point_s (objs h' v)"
      using p that(2) by fastforce
    ultimately show ?thesis
      using SpatialData_init_points_only [of d C h'] b by simp
  qed
  show ?thesis using 1 2 3 4 by blast
qed

theorem bounding_box_new_container_source_unchanged_witness:
  "bounding_box_query_points_dict sample_collab
        (map (\<lambda>(k, v). (k, objs sample_heap v)) (points full_sdata)) []
      = [(''a'', sample_obj PaTable [''x'', ''y''] ''rows'')] \<and>
   validate sample_collab Point_s (sample_obj PaTable [''x'', ''y''] ''rows'') \<and>
   bounding_box sample_collab [] \<lparr>self = full_sdata\<lparr>path := Some ''a.zarr''\<rparr>, heap = sample_heap,
       disk = [''a.zarr'' \<mapsto> Map.empty]\<rparr>
     = (Inr (empty_sdata\<lparr>points := [(''a'', 8)]\<rparr>),
        \<lparr>self = full_sdata\<lparr>path := Some ''a.zarr''\<rparr>,
         heap = sample_heap\<lparr>objs := (objs sample_heap)(8 := sample_obj PaTable [''x'', ''y''] ''rows''),
                            fresh := 9\<rparr>,
         disk = [''a.zarr'' \<mapsto> Map.empty]\<rparr>) \<and>
   path (empty_sdata\<lparr>points := [(''a'', 8)]\<rparr>) = None \<and> fresh sample_heap \<le> 8"
proof -
  have q: "bounding_box_query_points_dict sample_collab
        (map (\<lambda>(k, v). (k, objs sample_heap v)) (points full_sdata)) []
      = [(''a'', sample_obj PaTable [''x'', ''y''] ''rows'')]"
    by (simp add: sample_collab_def full_sdata_def sample_heap_def sample_obj_def)
  have v: "validate sample_collab Point_s (sample_obj PaTable [''x'', ''y''] ''rows'')"
    by (simp add: sample_collab_def sample_obj_def)
  have b: "bounding_box sample_collab [] \<lparr>self = full_sdata\<lparr>path := Some ''a.zarr''\<rparr>, heap = sample_heap,
       disk = [''a.zarr'' \<mapsto> Map.empty]\<rparr>
     = (Inr (empty_sdata\<lparr>points := [(''a'', 8)]\<rparr>),
        \<lparr>self = full_sdata\<lparr>path := Some ''a.zarr''\<rparr>,
         heap = sample_heap\<lparr>objs := (objs sample_heap)(8 := sample_obj PaTable [''x'', ''y''] ''rows''),
                            fresh := 9\<rparr>,
         disk = [''a.zarr'' \<mapsto> Map.empty]\<rparr>)"
    using q v
    by (simp add: bounding_box_def alloc_def SpatialData_init_def add_points_in_memory_def
        py_in_def py_set_def empty_sdata_def full_sdata_def)
       (simp add: sample_heap_def)
  show ?thesis
    using bounding_box_new_container_source_unchanged [of sample_collab "[]"
        "\<lparr>self = full_sdata\<lparr>path := Some ''a.zarr''\<rparr>, heap = sample_heap,
          disk = [''a.zarr'' \<mapsto> Map.empty]\<rparr>"] q v b
    by (simp add: empty_sdata_def sample_heap_def)
qed

subsection \<open>A failed write\<close>




























subsection \<open>Names held after a failed write\<close>






















subsection \<open>At most one name is lost\<close>


















subsection \<open>The outcome of a failed write\<close>







subsection \<open>A backed add\<close>

lemma init_add_element_ok:
  assumes "init_add_element name element_type overwrite s = (Inr g, s1)"
  shows "self s1 = self s \<and> heap s1 = heap s \<and>
    (\<exists>p root. path (self s) = Some p \<and> disk s1 p = Some root \<and>
       g = \<lparr>store_path = p, group_path = (if element_type \<noteq> ''labels'' then element_type else [])\<rparr> \<and>
       (if element_type \<noteq> ''labels'' then \<exists>grp. root element_type = Some grp \<and> grp name = None
        else \<forall>grp. root element_type = Some grp \<longrightarrow> grp name = None))"
proof -
  obtain p where p: "path (self s) = Some p"
    using assms by (cases "path (self s)") (auto simp: init_add_element_def)
  obtain root0 where r: "disk s p = Some root0"
    using assms p by (cases "disk s p") (auto simp: init_add_element_def)
  show ?thesis
    using assms p r
    unfolding init_add_element_def Let_def
    by (auto split: if_splits option.splits)
qed

lemma map_of_py_set: "map_of (py_set k v d) k = Some v"
  by (simp add: py_set_def update_conv')

lemma add_image_in_memory_ok:
  "add_image_in_memory C h name e ow sd = (None, sd') \<Longrightarrow>
     map_of (images sd') name = Some e \<and> path sd' = path sd"
  by (auto simp: add_image_in_memory_def Let_def map_of_py_set split: if_splits)

lemma in_memory_True_ok:
  assumes "in_memory True add s = (None, s1)"
  shows "add (heap s) (self s) = (None, self s1) \<and> heap s1 = heap s \<and> disk s1 = disk s"
  using assms by (auto simp: in_memory_def split: prod.splits)

lemma on_disk_ok:
  assumes "on_disk w s = (None, s1)"
  shows "w (disk s) = (None, disk s1) \<and> self s1 = self s \<and> heap s1 = heap s"
  using assms by (auto simp: on_disk_def split: prod.splits)

lemma reload_ok:
  assumes "reload r add s = (None, s1)"
  shows "r = Inr (objs (heap s1) (fresh (heap s))) \<and> fresh (heap s1) = Suc (fresh (heap s)) \<and>
         add (heap s1) (fresh (heap s)) (self s) = (None, self s1) \<and> disk s1 = disk s"
  using assms by (auto simp: reload_def alloc_def split: sum.splits prod.splits)

lemma and_then_ok:
  assumes "and_then r f = (None, s')"
  obtains s1 where "r = (None, s1)" and "f s1 = (None, s')"
  using and_then_cases [OF assms] by auto

lemma add_image_backed_ok:
  assumes p: "path (self s) = Some p"
    and a: "add_image C name e storage_options ow True s = (None, s')"
  shows "map_of (images (self s')) name = Some (fresh (heap s)) \<and>
    fresh (heap s') = Suc (fresh (heap s)) \<and>
    read_multiscale C (os_path_join p [''images'', name]) ''image'' (disk s')
      = Inr (objs (heap s') (fresh (heap s))) \<and>
    (\<exists>d root grp. d p = Some root \<and> root ''images'' = Some grp \<and> grp name = None \<and>
       write_image C (objs (heap s) e) \<lparr>store_path = p, group_path = ''images''\<rparr> name storage_options d
         = (None, disk s'))"
proof -
  from a obtain s1 where
    m: "in_memory True (\<lambda>h. add_image_in_memory C h name e ow) s = (None, s1)"
    and k: "(if is_backed (self s1) then
          (case init_add_element name ''images'' ow s1 of
             (Inl e, s2) \<Rightarrow> (Some e, s2)
           | (Inr elem_group, s2) \<Rightarrow>
             (case map_of (images (self s2)) name of
                None \<Rightarrow> (Some KeyError, s2)
              | Some cur \<Rightarrow>
                and_then (on_disk (write_image C (objs (heap s2) cur) elem_group name storage_options) s2)
                  (\<lambda>s3. if group_path elem_group \<noteq> ''images'' then (Some AssertionError, s3)
                     else reload (read_multiscale C (os_path_join (store_path elem_group) [''images'', name])
                                    ''image'' (disk s3))
                            (\<lambda>h new. add_image_in_memory C h name new True) s3)))
        else (None, s1)) = (None, s')"
    unfolding add_image_def by (rule and_then_ok)
  note m1 = in_memory_True_ok [OF m]
  have e1: "map_of (images (self s1)) name = Some e" and p1: "path (self s1) = Some p"
    using add_image_in_memory_ok [of C "heap s" name e ow "self s" "self s1"] m1 p by simp_all
  have b: "is_backed (self s1)" using p1 by (simp add: is_backed_def)
  obtain g s2 where i: "init_add_element name ''images'' ow s1 = (g, s2)"
    by (cases "init_add_element name ''images'' ow s1")
  obtain elem_group where g: "g = Inr elem_group"
    using k b i by (cases g) auto
  note i1 = init_add_element_ok [OF i [unfolded g]]
  obtain root grp where d2: "disk s2 p = Some root" "root ''images'' = Some grp" "grp name = None"
    and eg: "elem_group = \<lparr>store_path = p, group_path = ''images''\<rparr>"
    using i1 p1 by auto
  have e2: "map_of (images (self s2)) name = Some e" and h2: "heap s2 = heap s"
    using i1 e1 m1 by simp_all
  from k b i g e2 obtain s3 where
    w: "on_disk (write_image C (objs (heap s2) e) elem_group name storage_options) s2 = (None, s3)"
    and l: "reload (read_multiscale C (os_path_join (store_path elem_group) [''images'', name])
                                    ''image'' (disk s3))
                            (\<lambda>h new. add_image_in_memory C h name new True) s3 = (None, s')"
    by (auto simp: eg elim: and_then_ok)
  note w1 = on_disk_ok [OF w]
  note l1 = reload_ok [OF l]
  have "map_of (images (self s')) name = Some (fresh (heap s3))"
    using add_image_in_memory_ok [of C "heap s'" name "fresh (heap s3)" True "self s3" "self s'"] l1
    by simp
  then show ?thesis
    using w1 l1 h2 d2 eg by auto
qed

lemma add_labels_in_memory_ok:
  "add_labels_in_memory C h name e ow sd = (None, sd') \<Longrightarrow>
     map_of (labels sd') name = Some e \<and> path sd' = path sd"
  by (auto simp: add_labels_in_memory_def Let_def map_of_py_set split: if_splits)

lemma add_points_in_memory_ok:
  "add_points_in_memory C h name e ow sd = (None, sd') \<Longrightarrow>
     map_of (points sd') name = Some e \<and> path sd' = path sd"
  by (auto simp: add_points_in_memory_def Let_def map_of_py_set split: if_splits)

lemma add_polygons_in_memory_ok:
  "add_polygons_in_memory C h name e ow sd = (None, sd') \<Longrightarrow>
     map_of (polygons sd') name = Some e \<and> path sd' = path sd"
  by (auto simp: add_polygons_in_memory_def Let_def map_of_py_set split: if_splits)

lemma add_shapes_in_memory_ok:
  "add_shapes_in_memory C h name e ow sd = (None, sd') \<Longrightarrow>
     map_of (shapes sd') name = Some e \<and> path sd' = path sd"
  by (auto simp: add_shapes_in_memory_def Let_def map_of_py_set split: if_splits)

lemma add_labels_backed_ok:
  assumes p: "path (self s) = Some p"
    and a: "add_labels C name e storage_options ow True s = (None, s')"
  shows "map_of (labels (self s')) name = Some (fresh (heap s)) \<and>
    fresh (heap s') = Suc (fresh (heap s)) \<and>
    read_multiscale C (os_path_join p [''labels'', name]) ''labels'' (disk s')
      = Inr (objs (heap s') (fresh (heap s))) \<and>
    (\<exists>d root. d p = Some root \<and> (\<forall>grp. root ''labels'' = Some grp \<longrightarrow> grp name = None) \<and>
       write_labels C (objs (heap s) e) \<lparr>store_path = p, group_path = []\<rparr> name storage_options d
         = (None, disk s'))"
proof -
  from a obtain s1 where
    m: "in_memory True (\<lambda>h. add_labels_in_memory C h name e ow) s = (None, s1)"
    and k: "(if is_backed (self s1) then
          (case init_add_element name ''labels'' ow s1 of
             (Inl e, s2) \<Rightarrow> (Some e, s2)
           | (Inr elem_group, s2) \<Rightarrow>
             (case map_of (labels (self s2)) name of
                None \<Rightarrow> (Some KeyError, s2)
              | Some cur \<Rightarrow>
                and_then (on_disk (write_labels C (objs (heap s2) cur) elem_group name storage_options) s2)
                  (\<lambda>s3. if group_path elem_group \<noteq> [] then (Some AssertionError, s3)
                     else reload (read_multiscale C (os_path_join (store_path elem_group) [''labels'', name])
                                    ''labels'' (disk s3))
                            (\<lambda>h new. add_labels_in_memory C h name new True) s3)))
        else (None, s1)) = (None, s')"
    unfolding add_labels_def by (rule and_then_ok)
  note m1 = in_memory_True_ok [OF m]
  have e1: "map_of (labels (self s1)) name = Some e" and p1: "path (self s1) = Some p"
    using add_labels_in_memory_ok [of C "heap s" name e ow "self s" "self s1"] m1 p by simp_all
  have b: "is_backed (self s1)" using p1 by (simp add: is_backed_def)
  obtain g s2 where i: "init_add_element name ''labels'' ow s1 = (g, s2)"
    by (cases "init_add_element name ''labels'' ow s1")
  obtain elem_group where g: "g = Inr elem_group"
    using k b i by (cases g) auto
  note i1 = init_add_element_ok [OF i [unfolded g]]
  obtain root where d2: "disk s2 p = Some root" "\<forall>grp. root ''labels'' = Some grp \<longrightarrow> grp name = None"
    and eg: "elem_group = \<lparr>store_path = p, group_path = []\<rparr>"
    using i1 p1 by auto
  have e2: "map_of (labels (self s2)) name = Some e" and h2: "heap s2 = heap s"
    using i1 e1 m1 by simp_all
  from k b i g e2 obtain s3 where
    w: "on_disk (write_labels C (objs (heap s2) e) elem_group name storage_options) s2 = (None, s3)"
    and l: "reload (read_multiscale C (os_path_join (store_path elem_group) [''labels'', name])
                                    ''labels'' (disk s3))
                            (\<lambda>h new. add_labels_in_memory C h name new True) s3 = (None, s')"
    by (auto simp: eg elim: and_then_ok)
  note w1 = on_disk_ok [OF w]
  note l1 = reload_ok [OF l]
  have "map_of (labels (self s')) name = Some (fresh (heap s3))"
    using add_labels_in_memory_ok [of C "heap s'" name "fresh (heap s3)" True "self s3" "self s'"] l1
    by simp
  then show ?thesis
    using w1 l1 h2 d2 eg by auto
qed

lemma add_points_backed_ok:
  assumes p: "path (self s) = Some p"
    and a: "add_points C name e ow True s = (None, s')"
  shows "map_of (points (self s')) name = Some (fresh (heap s)) \<and>
    fresh (heap s') = Suc (fresh (heap s)) \<and>
    read_points C p (disk s') = Inr (objs (heap s') (fresh (heap s))) \<and>
    (\<exists>d root grp. d p = Some root \<and> root ''points'' = Some grp \<and> grp name = None \<and>
       write_points C (objs (heap s) e) \<lparr>store_path = p, group_path = ''points''\<rparr> name d
         = (None, disk s'))"
proof -
  from a obtain s1 where
    m: "in_memory True (\<lambda>h. add_points_in_memory C h name e ow) s = (None, s1)"
    and k: "(if is_backed (self s1) then
          (case init_add_element name ''points'' ow s1 of
             (Inl e, s2) \<Rightarrow> (Some e, s2)
           | (Inr elem_group, s2) \<Rightarrow>
             (case map_of (points (self s2)) name of
                None \<Rightarrow> (Some KeyError, s2)
              | Some cur \<Rightarrow>
                and_then (on_disk (write_points C (objs (heap s2) cur) elem_group name) s2)
                  (\<lambda>s3. reload (read_points C (store_path elem_group) (disk s3))
                            (\<lambda>h new. add_points_in_memory C h name new True) s3)))
        else (None, s1)) = (None, s')"
    unfolding add_points_def by (rule and_then_ok)
  note m1 = in_memory_True_ok [OF m]
  have e1: "map_of (points (self s1)) name = Some e" and p1: "path (self s1) = Some p"
    using add_points_in_memory_ok [of C "heap s" name e ow "self s" "self s1"] m1 p by simp_all
  have b: "is_backed (self s1)" using p1 by (simp add: is_backed_def)
  obtain g s2 where i: "init_add_element name ''points'' ow s1 = (g, s2)"
    by (cases "init_add_element name ''points'' ow s1")
  obtain elem_group where g: "g = Inr elem_group"
    using k b i by (cases g) auto
  note i1 = init_add_element_ok [OF i [unfolded g]]
  obtain root grp where d2: "disk s2 p = Some root" "root ''points'' = Some grp" "grp name = None"
    and eg: "elem_group = \<lparr>store_path = p, group_path = ''points''\<rparr>"
    using i1 p1 by auto
  have e2: "map_of (points (self s2)) name = Some e" and h2: "heap s2 = heap s"
    using i1 e1 m1 by simp_all
  from k b i g e2 obtain s3 where
    w: "on_disk (write_points C (objs (heap s2) e) elem_group name) s2 = (None, s3)"
    and l: "reload (read_points C (store_path elem_group) (disk s3))
                            (\<lambda>h new. add_points_in_memory C h name new True) s3 = (None, s')"
    by (auto simp: eg elim: and_then_ok)
  note w1 = on_disk_ok [OF w]
  note l1 = reload_ok [OF l]
  have "map_of (points (self s')) name = Some (fresh (heap s3))"
    using add_points_in_memory_ok [of C "heap s'" name "fresh (heap s3)" True "self s3" "self s'"] l1
    by simp
  then show ?thesis
    using w1 l1 h2 d2 eg by auto
qed

lemma add_polygons_backed_ok:
  assumes p: "path (self s) = Some p"
    and a: "add_polygons C name e ow True s = (None, s')"
  shows "map_of (polygons (self s')) name = Some e \<and> heap s' = heap s \<and>
    (\<exists>d root grp. d p = Some root \<and> root ''polygons'' = Some grp \<and> grp name = None \<and>
       write_polygons C (objs (heap s) e) \<lparr>store_path = p, group_path = ''polygons''\<rparr> name d
         = (None, disk s'))"
proof -
  from a obtain s1 where
    m: "in_memory True (\<lambda>h. add_polygons_in_memory C h name e ow) s = (None, s1)"
    and k: "(if is_backed (self s1) then
          (case init_add_element name ''polygons'' ow s1 of
             (Inl e, s2) \<Rightarrow> (Some e, s2)
           | (Inr elem_group, s2) \<Rightarrow>
             (case map_of (polygons (self s2)) name of
                None \<Rightarrow> (Some KeyError, s2)
              | Some cur \<Rightarrow> on_disk (write_polygons C (objs (heap s2) cur) elem_group name) s2))
        else (None, s1)) = (None, s')"
    unfolding add_polygons_def by (rule and_then_ok)
  note m1 = in_memory_True_ok [OF m]
  have e1: "map_of (polygons (self s1)) name = Some e" and p1: "path (self s1) = Some p"
    using add_polygons_in_memory_ok [of C "heap s" name e ow "self s" "self s1"] m1 p by simp_all
  have b: "is_backed (self s1)" using p1 by (simp add: is_backed_def)
  obtain g s2 where i: "init_add_element name ''polygons'' ow s1 = (g, s2)"
    by (cases "init_add_element name ''polygons'' ow s1")
  obtain elem_group where g: "g = Inr elem_group"
    using k b i by (cases g) auto
  note i1 = init_add_element_ok [OF i [unfolded g]]
  obtain root grp where d2: "disk s2 p = Some root" "root ''polygons'' = Some grp" "grp name = None"
    and eg: "elem_group = \<lparr>store_path = p, group_path = ''polygons''\<rparr>"
    using i1 p1 by auto
  have e2: "map_of (polygons (self s2)) name = Some e" and h2: "heap s2 = heap s"
    and f2: "self s2 = self s1"
    using i1 e1 m1 by simp_all
  have w: "on_disk (write_polygons C (objs (heap s2) e) elem_group name) s2 = (None, s')"
    using k b i g e2 by simp
  note w1 = on_disk_ok [OF w]
  show ?thesis
    using w1 h2 d2 eg e2 by auto
qed

lemma add_shapes_backed_ok:
  assumes p: "path (self s) = Some p"
    and a: "add_shapes C name e ow True s = (None, s')"
  shows "map_of (shapes (self s')) name = Some e \<and> heap s' = heap s \<and>
    (\<exists>d root grp. d p = Some root \<and> root ''shapes'' = Some grp \<and> grp name = None \<and>
       write_shapes C (objs (heap s) e) \<lparr>store_path = p, group_path = ''shapes''\<rparr> name d
         = (None, disk s'))"
proof -
  from a obtain s1 where
    m: "in_memory True (\<lambda>h. add_shapes_in_memory C h name e ow) s = (None, s1)"
    and k: "(if is_backed (self s1) then
          (case init_add_element name ''shapes'' ow s1 of
             (Inl e, s2) \<Rightarrow> (Some e, s2)
           | (Inr elem_group, s2) \<Rightarrow>
             (case map_of (shapes (self s2)) name of
                None \<Rightarrow> (Some KeyError, s2)
              | Some cur \<Rightarrow> on_disk (write_shapes C (objs (heap s2) cur) elem_group name) s2))
        else (None, s1)) = (None, s')"
    unfolding add_shapes_def by (rule and_then_ok)
  note m1 = in_memory_True_ok [OF m]
  have e1: "map_of (shapes (self s1)) name = Some e" and p1: "path (self s1) = Some p"
    using add_shapes_in_memory_ok [of C "heap s" name e ow "self s" "self s1"] m1 p by simp_all
  have b: "is_backed (self s1)" using p1 by (simp add: is_backed_def)
  obtain g s2 where i: "init_add_element name ''shapes'' ow s1 = (g, s2)"
    by (cases "init_add_element name ''shapes'' ow s1")
  obtain elem_group where g: "g = Inr elem_group"
    using k b i by (cases g) auto
  note i1 = init_add_element_ok [OF i [unfolded g]]
  obtain root grp where d2: "disk s2 p = Some root" "root ''shapes'' = Some grp" "grp name = None"
    and eg: "elem_group = \<lparr>store_path = p, group_path = ''shapes''\<rparr>"
    using i1 p1 by auto
  have e2: "map_of (shapes (self s2)) name = Some e" and h2: "heap s2 = heap s"
    and f2: "self s2 = self s1"
    using i1 e1 m1 by simp_all
  have w: "on_disk (write_shapes C (objs (heap s2) e) elem_group name) s2 = (None, s')"
    using k b i g e2 by simp
  note w1 = on_disk_ok [OF w]
  show ?thesis
    using w1 h2 d2 eg e2 by auto
qed

lemma sample_backed_add_polygons:
  "add_polygons sample_collab ''b'' 4 False True
      \<lparr>self = full_sdata\<lparr>path := Some ''a.zarr''\<rparr>, heap = sample_heap, disk = [''a.zarr'' \<mapsto> Map.empty]\<rparr>
    = (None,
       \<lparr>self = full_sdata\<lparr>polygons := [(''a'', 4), (''b'', 4)], path := Some ''a.zarr''\<rparr>,
        heap = sample_heap,
        disk = [''a.zarr'' \<mapsto> [''polygons'' \<mapsto> [''b'' \<mapsto> Some (objs sample_heap 4)]]]\<rparr>)"
  by (simp add: add_polygons_def in_memory_def on_disk_def init_add_element_def element_types_def
      add_polygons_in_memory_def py_in_def py_set_def
      is_backed_def Let_def full_sdata_def sample_collab_def sample_write_def
      sample_heap_def sample_obj_def)

lemma sample_backed_add_image:
  "fst (add_image sample_collab ''b'' 0 None False True
      \<lparr>self = full_sdata\<lparr>path := Some ''a.zarr''\<rparr>, heap = sample_heap, disk = [''a.zarr'' \<mapsto> Map.empty]\<rparr>)
    = None"
  by (simp add: add_image_def in_memory_def on_disk_def init_add_element_def element_types_def
      add_image_in_memory_def py_in_def py_set_def py_del_def reload_def alloc_def
      os_path_join_def join2_def
      is_backed_def Let_def full_sdata_def sample_collab_def sample_write_def
      sample_heap_def sample_obj_def)

text \<open>
  C3, as first stated, fails: a backed \<open>add_polygons\<close> writes the polygons and
  returns; no object is created, and the in-memory entry is the caller's object 4.
\<close>

theorem backed_add_counterexample:
  "is_backed (full_sdata\<lparr>path := Some ''a.zarr''\<rparr>) \<and>
   add_polygons sample_collab ''b'' 4 False True
      \<lparr>self = full_sdata\<lparr>path := Some ''a.zarr''\<rparr>, heap = sample_heap, disk = [''a.zarr'' \<mapsto> Map.empty]\<rparr>
    = (None,
       \<lparr>self = full_sdata\<lparr>polygons := [(''a'', 4), (''b'', 4)], path := Some ''a.zarr''\<rparr>,
        heap = sample_heap,
        disk = [''a.zarr'' \<mapsto> [''polygons'' \<mapsto> [''b'' \<mapsto> Some (objs sample_heap 4)]]]\<rparr>)"
  using sample_backed_add_polygons by (simp add: is_backed_def)

text \<open>
  C3, amended. A backed add that returns has handed the element to the writer of its
  kind in a store where the named subgroup is absent; for images, points, polygons and
  shapes the kind-level subgroup is there by then (opened or created), for labels it
  is left to the writer. After an add of an image, of labels or of points the in-memory
  entry is a new object, the handle the reader returned from the store. After an add of
  polygons or shapes there is no reload: the in-memory entry is the caller's object and
  no object is created.
\<close>

theorem backed_add_reloads_rasters_and_points:
  assumes "path (self s) = Some p"
  shows
   "(add_image C name e storage_options ow True s = (None, s') \<longrightarrow>
      map_of (images (self s')) name = Some (fresh (heap s)) \<and>
      fresh (heap s') = Suc (fresh (heap s)) \<and>
      read_multiscale C (os_path_join p [''images'', name]) ''image'' (disk s')
        = Inr (objs (heap s') (fresh (heap s))) \<and>
      (\<exists>d root grp. d p = Some root \<and> root ''images'' = Some grp \<and> grp name = None \<and>
         write_image C (objs (heap s) e) \<lparr>store_path = p, group_path = ''images''\<rparr> name storage_options d
           = (None, disk s'))) \<and>
    (add_labels C name e storage_options ow True s = (None, s') \<longrightarrow>
      map_of (labels (self s')) name = Some (fresh (heap s)) \<and>
      fresh (heap s') = Suc (fresh (heap s)) \<and>
      read_multiscale C (os_path_join p [''labels'', name]) ''labels'' (disk s')
        = Inr (objs (heap s') (fresh (heap s))) \<and>
      (\<exists>d root. d p = Some root \<and> (\<forall>grp. root ''labels'' = Some grp \<longrightarrow> grp name = None) \<and>
         write_labels C (objs (heap s) e) \<lparr>store_path = p, group_path = []\<rparr> name storage_options d
           = (None, disk s'))) \<and>
    (add_points C name e ow True s = (None, s') \<longrightarrow>
      map_of (points (self s')) name = Some (fresh (heap s)) \<and>
      fresh (heap s') = Suc (fresh (heap s)) \<and>
      read_points C p (disk s') = Inr (objs (heap s') (fresh (heap s))) \<and>
      (\<exists>d root grp. d p = Some root \<and> root ''points'' = Some grp \<and> grp name = None \<and>
         write_points C (objs (heap s) e) \<lparr>store_path = p, group_path = ''points''\<rparr> name d
           = (None, disk s'))) \<and>
    (add_polygons C name e ow True s = (None, s') \<longrightarrow>
      map_of (polygons (self s')) name = Some e \<and> heap s' = heap s \<and>
      (\<exists>d root grp. d p = Some root \<and> root ''polygons'' = Some grp \<and> grp name = None \<and>
         write_polygons C (objs (heap s) e) \<lparr>store_path = p, group_path = ''polygons''\<rparr> name d
           = (None, disk s'))) \<and>
    (add_shapes C name e ow True s = (None, s') \<longrightarrow>
      map_of (shapes (self s')) name = Some e \<and> heap s' = heap s \<and>
      (\<exists>d root grp. d p = Some root \<and> root ''shapes'' = Some grp \<and> grp name = None \<and>
         write_shapes C (objs (heap s) e) \<lparr>store_path = p, group_path = ''shapes''\<rparr> name d
           = (None, disk s')))"
  using add_image_backed_ok [OF assms, of C name e storage_options ow s']
    add_labels_backed_ok [OF assms, of C name e storage_options ow s']
    add_points_backed_ok [OF assms, of C name e ow s']
    add_polygons_backed_ok [OF assms, of C name e ow s']
    add_shapes_backed_ok [OF assms, of C name e ow s']
  by blast

theorem backed_add_reloads_rasters_and_points_witness:
  "path (self \<lparr>self = full_sdata\<lparr>path := Some ''a.zarr''\<rparr>, heap = sample_heap,
               disk = [''a.zarr'' \<mapsto> Map.empty]\<rparr>) = Some ''a.zarr'' \<and>
   (\<exists>s'. add_image sample_collab ''b'' 0 None False True
            \<lparr>self = full_sdata\<lparr>path := Some ''a.zarr''\<rparr>, heap = sample_heap,
             disk = [''a.zarr'' \<mapsto> Map.empty]\<rparr> = (None, s') \<and>
          map_of (images (self s')) ''b'' = Some 8 \<and> fresh (heap s') = 9 \<and>
          objs (heap s') 8 = \<lparr>cls = MultiscaleSpatialImage, get_dims = [''c'', ''y'', ''x''],
                               get_transform = Some Identity, payload = ''a.zarr/images/b''\<rparr>) \<and>
   (\<exists>s'. add_polygons sample_collab ''b'' 4 False True
            \<lparr>self = full_sdata\<lparr>path := Some ''a.zarr''\<rparr>, heap = sample_heap,
             disk = [''a.zarr'' \<mapsto> Map.empty]\<rparr> = (None, s') \<and>
          map_of (polygons (self s')) ''b'' = Some 4 \<and> heap s' = sample_heap)"
proof -
  let ?s = "\<lparr>self = full_sdata\<lparr>path := Some ''a.zarr''\<rparr>, heap = sample_heap,
             disk = [''a.zarr'' \<mapsto> Map.empty]\<rparr>"
  have p: "path (self ?s) = Some ''a.zarr''" by simp
  obtain s1 where i: "add_image sample_collab ''b'' 0 None False True ?s = (None, s1)"
    using sample_backed_add_image by (cases "add_image sample_collab ''b'' 0 None False True ?s") auto
  obtain s2 where g: "add_polygons sample_collab ''b'' 4 False True ?s = (None, s2)"
    using sample_backed_add_polygons by blast
  have f: "fresh (heap ?s) = 8" by (simp add: sample_heap_def)
  have j: "os_path_join ''a.zarr'' [''images'', ''b''] = ''a.zarr/images/b''"
    by (simp add: os_path_join_def join2_def)
  have r: "read_multiscale sample_collab q ''image'' d
      = Inr \<lparr>cls = MultiscaleSpatialImage, get_dims = [''c'', ''y'', ''x''],
             get_transform = Some Identity, payload = q\<rparr>" for q d
    by (simp add: sample_collab_def)
  note t1 = backed_add_reloads_rasters_and_points
      [OF p, of sample_collab "''b''" 0 None False s1, THEN conjunct1, rule_format, OF i]
  note t2 = backed_add_reloads_rasters_and_points
      [OF p, of sample_collab "''b''" 4 None False s2, THEN conjunct2, THEN conjunct2, THEN conjunct2,
       THEN conjunct1, rule_format, OF g]
  have a1: "map_of (images (self s1)) ''b'' = Some 8 \<and> fresh (heap s1) = 9 \<and>
          objs (heap s1) 8 = \<lparr>cls = MultiscaleSpatialImage, get_dims = [''c'', ''y'', ''x''],
                               get_transform = Some Identity, payload = ''a.zarr/images/b''\<rparr>"
    using t1 f j r by simp
  have a2: "map_of (polygons (self s2)) ''b'' = Some 4 \<and> heap s2 = sample_heap"
    using t2 by simp
  show ?thesis using p i g a1 a2 by blast
qed

end
